theory Spec2Isabelle
  imports Main "HOL-Library.Word"
begin

section \<open>Values handled by the script\<close>

text \<open>
  The script \<^verbatim>\<open>s2t-gcp.py\<close> reads a text file, sends the text to a remote
  speech service and stores the audio it gets back; a second flow lists the voices of a
  language. Paths, voice names, language codes and messages are Python strings and are
  modelled as \<^typ>\<open>string\<close> (their UTF-8 bytes). The text read from the input file is
  kept as its list of Unicode code points, since \<^verbatim>\<open>len(text)\<close> counts code
  points. Audio and file contents are byte lists.
\<close>

type_synonym bytes = "8 word list"
type_synonym unicode = "nat list"

text \<open>\<^verbatim>\<open>str(n)\<close> for a non-negative and for an arbitrary Python integer.\<close>

definition digit :: "nat \<Rightarrow> char" where
  "digit d = ''0123456789'' ! d"

fun str_nat :: "nat \<Rightarrow> string" where
  "str_nat n =
     (if n < 10 then [digit n]
      else str_nat (n div 10) @ [digit (n mod 10)])"

declare str_nat.simps [simp del]

definition str_int :: "int \<Rightarrow> string" where
  "str_int i = (if i < 0 then CHR ''-'' # str_nat (nat (- i)) else str_nat (nat i))"

text \<open>\<^verbatim>\<open>sep.join(xs)\<close>.\<close>

fun join :: "string \<Rightarrow> string list \<Rightarrow> string" where
  "join sep [] = []"
| "join sep [x] = x"
| "join sep (x # y # ys) = x @ sep @ join sep (y # ys)"

text \<open>A value between the single quotes of an f-string, as in \<^verbatim>\<open>'{input_file}'\<close>.\<close>

definition quoted :: "string \<Rightarrow> string" where
  "quoted s = CHR 0x27 # s @ [CHR 0x27]"

text \<open>
  The three progress markers that start the messages of the synthesis flow, byte for
  byte as they stand in the source file.
\<close>

definition ok_mark :: string where
  "ok_mark = [CHR 0xE2, CHR 0x80, CHR 0x9A, CHR 0xC3, CHR 0xBA, CHR 0xC3, CHR 0xAC]"

definition err_mark :: string where
  "err_mark = [CHR 0xE2, CHR 0x80, CHR 0x9A, CHR 0xC3, CHR 0xBA, CHR 0xC3, CHR 0xB3]"

definition busy_mark :: string where
  "busy_mark = [CHR 0xE2, CHR 0x80, CHR 0x9A, CHR 0xC3, CHR 0xBC, CHR 0xE2, CHR 0x89, CHR 0xA5]"

subsection \<open>Messages of the client library\<close>

text \<open>
  A voice of the catalog as the script reads it: \<^verbatim>\<open>voice.ssml_gender\<close> is the
  numeric value that the script hands to the gender enumeration.
\<close>

record Voice =
  v_name :: string
  v_language_codes :: "string list"
  v_ssml_gender :: int
  v_natural_sample_rate_hertz :: int

record SynthesisInput =
  si_text :: unicode

record VoiceSelectionParams =
  sel_language_code :: string
  sel_name :: string

datatype AudioEncoding = MP3

record AudioConfig =
  audio_encoding :: AudioEncoding

type_synonym synthesis_request = "SynthesisInput \<times> VoiceSelectionParams \<times> AudioConfig"

text \<open>
  Modelled from the spec: the gender enumeration \<^verbatim>\<open>texttospeech.SsmlVoiceGender\<close>
  belongs to the client library, which is not under src/. The spec's glossary describes
  the SSML gender as a coarse categorical label (male, female, neutral); the members and
  their numeric values are those of the library's enumeration. Calling a Python
  enumeration on a value that no member has raises \<^verbatim>\<open>ValueError\<close>, which is the
  \<open>None\<close> of \<open>SsmlVoiceGender_of\<close>.
\<close>

datatype SsmlVoiceGender = SSML_VOICE_GENDER_UNSPECIFIED | MALE | FEMALE | NEUTRAL

definition SsmlVoiceGender_of :: "int \<Rightarrow> SsmlVoiceGender option" where
  "SsmlVoiceGender_of i =
     (if i = 0 then Some SSML_VOICE_GENDER_UNSPECIFIED
      else if i = 1 then Some MALE
      else if i = 2 then Some FEMALE
      else if i = 3 then Some NEUTRAL
      else None)"

fun gender_name :: "SsmlVoiceGender \<Rightarrow> string" where
  "gender_name SSML_VOICE_GENDER_UNSPECIFIED = ''SSML_VOICE_GENDER_UNSPECIFIED''"
| "gender_name MALE = ''MALE''"
| "gender_name FEMALE = ''FEMALE''"
| "gender_name NEUTRAL = ''NEUTRAL''"

definition invalid_gender_message :: "int \<Rightarrow> string" where
  "invalid_gender_message i = str_int i @ '' is not a valid SsmlVoiceGender''"

section \<open>The world outside the script\<close>

text \<open>
  What the script cannot decide is a parameter: how the runtime reads an existing file
  as UTF-8 text, whether a client can be created, what the remote service answers,
  whether the output path can be opened and written, and whether the console can encode
  a line. \<open>Inl\<close> and \<open>Some\<close> carry the message of the exception raised.
  \<^item> \<open>path_fault\<close> is asked for a path that names no file. Opening such a path
    raises \<^verbatim>\<open>FileNotFoundError\<close> (\<open>None\<close>) unless the system refuses the path
    for another reason, such as a component that is not a directory or a name that is
    too long (\<open>Some\<close>, with the message of that error).
  \<^item> \<open>encode_fault\<close> is the message of the \<^verbatim>\<open>UnicodeEncodeError\<close> that
    \<^verbatim>\<open>print\<close> raises for a line the console encoding cannot represent.
  \<^item> \<open>format_help\<close> is the usage text that argparse renders for the parser of
    \<open>main\<close>.
\<close>

record env =
  path_fault :: "string \<Rightarrow> string option"
  read_text :: "string \<Rightarrow> bytes \<Rightarrow> string + unicode"
  client_fault :: "string option"
  remote_list_voices :: "string \<Rightarrow> string + Voice list"
  remote_synthesize :: "synthesis_request \<Rightarrow> string + bytes"
  open_write_fault :: "string \<Rightarrow> string option"
  write_fault :: "string \<Rightarrow> bytes \<Rightarrow> (string \<times> nat) option"
  encode_fault :: "string \<Rightarrow> string option"
  format_help :: string

text \<open>
  The calls that leave the process, in the order they are made: file opens, file
  writes and the three calls of the client library.
\<close>

datatype effect =
    OpenRead string
  | CreateClient
  | ListVoicesCall string
  | SynthesizeCall synthesis_request
  | OpenWrite string
  | WriteBytes string bytes

text \<open>
  The state a run changes: the files on disk, the console (one entry for each
  \<^verbatim>\<open>print\<close> call, without the newline that ends it) and the calls made so far.
\<close>

record world =
  files :: "string \<rightharpoonup> bytes"
  stdout :: "string list"
  effects :: "effect list"

datatype exn = FileNotFoundError | Exception string

text \<open>
  A function of the script returns, leaves through \<^verbatim>\<open>sys.exit\<close>, or lets an
  exception escape. \<^verbatim>\<open>SystemExit\<close> is not an \<^verbatim>\<open>Exception\<close>, so no handler of
  the script catches it. An exception that no handler catches ends the interpreter with
  status 1 (the traceback goes to the error stream, which the world does not record).
\<close>

datatype 'a res = Return 'a | SysExit int | Uncaught string

definition exit_status :: "'a res \<Rightarrow> int" where
  "exit_status r = (case r of Return _ \<Rightarrow> 0 | SysExit n \<Rightarrow> n | Uncaught _ \<Rightarrow> 1)"

text \<open>
  \<^verbatim>\<open>print(s)\<close>: the line reaches the console (\<open>emit\<close>), or the call raises and
  nothing is written.
\<close>

definition emit :: "string \<Rightarrow> world \<Rightarrow> world" where
  "emit s w = w\<lparr>stdout := stdout w @ [s]\<rparr>"

definition print :: "env \<Rightarrow> string \<Rightarrow> world \<Rightarrow> (string + unit) \<times> world" where
  "print env s w =
     (case encode_fault env s of
        Some msg \<Rightarrow> (Inl msg, w)
      | None \<Rightarrow> (Inr (), emit s w))"

text \<open>
  The body of every handler of the script: \<^verbatim>\<open>print(line); sys.exit(1)\<close>. A handler
  is not inside a \<^verbatim>\<open>try\<close>, so a print that raises there escapes.
\<close>

definition fail_with :: "env \<Rightarrow> string \<Rightarrow> world \<Rightarrow> unit res \<times> world" where
  "fail_with env line w =
     (case print env line w of
        (Inl e, w1) \<Rightarrow> (Uncaught e, w1)
      | (Inr done_, w1) \<Rightarrow> (SysExit 1, w1))"

text \<open>Two statements in a row inside a \<^verbatim>\<open>try\<close>: the second runs when the first did not raise.\<close>

definition and_then ::
  "(string + 'a) \<times> world \<Rightarrow> ('a \<Rightarrow> world \<Rightarrow> (string + 'b) \<times> world) \<Rightarrow> (string + 'b) \<times> world" where
  "and_then m f = (case m of (Inl e, w) \<Rightarrow> (Inl e, w) | (Inr x, w) \<Rightarrow> f x w)"

definition perform :: "effect \<Rightarrow> world \<Rightarrow> world" where
  "perform e w = w\<lparr>effects := effects w @ [e]\<rparr>"

text \<open>
  \<^verbatim>\<open>with open(path, 'r', encoding='utf-8') as f: text = f.read()\<close>.
  A path that names no file raises \<^verbatim>\<open>FileNotFoundError\<close>, or the error with
  which the system refuses the path (\<^verbatim>\<open>NotADirectoryError\<close>, \<^verbatim>\<open>OSError\<close> for a
  name too long); a file that is there can fail to be read (permissions, a directory,
  bytes that are not UTF-8). All but the first are caught as \<^verbatim>\<open>Exception\<close>.
\<close>

definition open_read :: "env \<Rightarrow> string \<Rightarrow> world \<Rightarrow> (exn + unicode) \<times> world" where
  "open_read env path w =
     (let w1 = perform (OpenRead path) w in
      case files w path of
        None \<Rightarrow>
          (case path_fault env path of
             None \<Rightarrow> (Inl FileNotFoundError, w1)
           | Some msg \<Rightarrow> (Inl (Exception msg), w1))
      | Some content \<Rightarrow>
          (case read_text env path content of
             Inl msg \<Rightarrow> (Inl (Exception msg), w1)
           | Inr t \<Rightarrow> (Inr t, w1)))"

text \<open>\<^verbatim>\<open>texttospeech.TextToSpeechClient()\<close>.\<close>

definition TextToSpeechClient :: "env \<Rightarrow> world \<Rightarrow> (string + unit) \<times> world" where
  "TextToSpeechClient env w =
     (let w1 = perform CreateClient w in
      case client_fault env of
        Some msg \<Rightarrow> (Inl msg, w1)
      | None \<Rightarrow> (Inr (), w1))"

text \<open>\<^verbatim>\<open>client.list_voices(language_code=language_code)\<close>; the result is \<^verbatim>\<open>response.voices\<close>.\<close>

definition client_list_voices ::
  "env \<Rightarrow> string \<Rightarrow> world \<Rightarrow> (string + Voice list) \<times> world" where
  "client_list_voices env language_code w =
     (remote_list_voices env language_code, perform (ListVoicesCall language_code) w)"

text \<open>\<^verbatim>\<open>client.synthesize_speech(...)\<close>; the result is \<^verbatim>\<open>response.audio_content\<close>.\<close>

definition synthesize_speech ::
  "env \<Rightarrow> synthesis_request \<Rightarrow> world \<Rightarrow> (string + bytes) \<times> world" where
  "synthesize_speech env request w =
     (remote_synthesize env request, perform (SynthesizeCall request) w)"

text \<open>
  \<^verbatim>\<open>with open(path, "wb") as out: out.write(data)\<close>. Opening for writing empties
  the file; a write that fails leaves the bytes that reached the disk.
\<close>

definition write_binary :: "env \<Rightarrow> string \<Rightarrow> bytes \<Rightarrow> world \<Rightarrow> (string + unit) \<times> world" where
  "write_binary env path content w =
     (let w1 = perform (OpenWrite path) w in
      case open_write_fault env path of
        Some msg \<Rightarrow> (Inl msg, w1)
      | None \<Rightarrow>
          (let w2 = perform (WriteBytes path content) (w1\<lparr>files := (files w1)(path \<mapsto> [])\<rparr>) in
           case write_fault env path content of
             Some (msg, n) \<Rightarrow> (Inl msg, w2\<lparr>files := (files w2)(path \<mapsto> take n content)\<rparr>)
           | None \<Rightarrow> (Inr (), w2\<lparr>files := (files w2)(path \<mapsto> content)\<rparr>)))"

section \<open>The listing flow\<close>

definition divider :: string where
  "divider = replicate 60 CHR ''-''"

definition print_banner :: "env \<Rightarrow> string \<Rightarrow> world \<Rightarrow> (string + unit) \<times> world" where
  "print_banner env language_code w =
     and_then (print env (CHR 0x0A # replicate 60 CHR ''='') w) (\<lambda>_ w1.
     and_then (print env (''Available voices for language: '' @ language_code) w1) (\<lambda>_ w2.
     print env (replicate 60 CHR ''='' @ [CHR 0x0A]) w2))"

text \<open>
  \<^verbatim>\<open>texttospeech.SsmlVoiceGender(voice.ssml_gender)\<close>: a value that is no member
  raises.
\<close>

definition to_gender :: "int \<Rightarrow> world \<Rightarrow> (string + SsmlVoiceGender) \<times> world" where
  "to_gender i w =
     (case SsmlVoiceGender_of i of
        None \<Rightarrow> (Inl (invalid_gender_message i), w)
      | Some g \<Rightarrow> (Inr g, w))"

text \<open>
  The loop over \<^verbatim>\<open>response.voices\<close>. It ends at the first statement that raises: a
  line the console refuses, or a gender value outside the enumeration.
\<close>

fun print_voices :: "env \<Rightarrow> Voice list \<Rightarrow> world \<Rightarrow> (string + unit) \<times> world" where
  "print_voices env [] w = (Inr (), w)"
| "print_voices env (voice # rest) w =
     and_then (print env (''Name: '' @ v_name voice) w) (\<lambda>_ w1.
     and_then (print env (''Languages: '' @ join '', '' (v_language_codes voice)) w1) (\<lambda>_ w2.
     and_then (to_gender (v_ssml_gender voice) w2) (\<lambda>g w3.
     and_then (print env (''Gender: '' @ gender_name g) w3) (\<lambda>_ w4.
     and_then (print env (''Natural Sample Rate: '' @
                          str_int (v_natural_sample_rate_hertz voice) @ '' Hz'') w4) (\<lambda>_ w5.
     and_then (print env divider w5) (\<lambda>_ w6.
     print_voices env rest w6))))))"

text \<open>
  The query, the banner and the loop share one \<^verbatim>\<open>try\<close> block and one handler.
\<close>

definition list_voices :: "env \<Rightarrow> string \<Rightarrow> world \<Rightarrow> unit res \<times> world" where
  "list_voices env language_code w =
     (case TextToSpeechClient env w of
        (Inl e, w1) \<Rightarrow> fail_with env (''Error creating client: '' @ e) w1
      | (Inr client, w1) \<Rightarrow>
          (case and_then (client_list_voices env language_code w1) (\<lambda>voices w2.
                and_then (print_banner env language_code w2) (\<lambda>_ w3.
                print_voices env voices w3)) of
             (Inl e, w4) \<Rightarrow> fail_with env (''Error listing voices: '' @ e) w4
           | (Inr done_, w4) \<Rightarrow> (Return (), w4)))"

section \<open>The synthesis flow\<close>

text \<open>
  Each statement that can raise is followed by the handler of the \<^verbatim>\<open>try\<close> block it
  stands in. The first block holds the read and the line that reports it, the second
  the client and its line, the third the line before the request, the request and the
  line after it, the fourth the write and its line. The line that names the voice
  stands between the second and the third block, outside every \<^verbatim>\<open>try\<close>.
\<close>

definition text_to_speech ::
  "env \<Rightarrow> string \<Rightarrow> string \<Rightarrow> string \<Rightarrow> string \<Rightarrow> world \<Rightarrow> unit res \<times> world" where
  "text_to_speech env input_file output_file voice_name language_code w =
     (case open_read env input_file w of
        (Inl FileNotFoundError, w1) \<Rightarrow>
          fail_with env (err_mark @ '' Error: Input file '' @ quoted input_file @ '' not found.'') w1
      | (Inl (Exception e), w1) \<Rightarrow>
          fail_with env (err_mark @ '' Error reading input file: '' @ e) w1
      | (Inr txt, w1) \<Rightarrow>
     (case print env (ok_mark @ '' Read '' @ str_nat (length txt) @
                      '' characters from '' @ quoted input_file) w1 of
        (Inl e, w2) \<Rightarrow> fail_with env (err_mark @ '' Error reading input file: '' @ e) w2
      | (Inr done_, w2) \<Rightarrow>
     (case TextToSpeechClient env w2 of
        (Inl e, w3) \<Rightarrow> fail_with env (err_mark @ '' Error creating client: '' @ e) w3
      | (Inr client, w3) \<Rightarrow>
     (case print env (ok_mark @ '' Connected to Google Cloud Text-to-Speech API'') w3 of
        (Inl e, w4) \<Rightarrow> fail_with env (err_mark @ '' Error creating client: '' @ e) w4
      | (Inr done_, w4) \<Rightarrow>
     (let synthesis_input = \<lparr>si_text = txt\<rparr>;
          voice = \<lparr>sel_language_code = language_code, sel_name = voice_name\<rparr>;
          audio_config = \<lparr>audio_encoding = MP3\<rparr>
      in
      case print env (ok_mark @ '' Using voice: '' @ voice_name @
                      '' ('' @ language_code @ '')'') w4 of
        (Inl e, w5) \<Rightarrow> (Uncaught e, w5)
      | (Inr done_, w5) \<Rightarrow>
     (case print env (busy_mark @ '' Synthesizing speech...'') w5 of
        (Inl e, w6) \<Rightarrow> fail_with env (err_mark @ '' Error during synthesis: '' @ e) w6
      | (Inr done_, w6) \<Rightarrow>
     (case synthesize_speech env (synthesis_input, voice, audio_config) w6 of
        (Inl e, w7) \<Rightarrow> fail_with env (err_mark @ '' Error during synthesis: '' @ e) w7
      | (Inr audio_content, w7) \<Rightarrow>
     (case print env (ok_mark @ '' Speech synthesis complete'') w7 of
        (Inl e, w8) \<Rightarrow> fail_with env (err_mark @ '' Error during synthesis: '' @ e) w8
      | (Inr done_, w8) \<Rightarrow>
     (case write_binary env output_file audio_content w8 of
        (Inl e, w9) \<Rightarrow> fail_with env (err_mark @ '' Error writing output file: '' @ e) w9
      | (Inr done_, w9) \<Rightarrow>
     (case print env (ok_mark @ '' Audio content written to '' @ quoted output_file) w9 of
        (Inl e, w10) \<Rightarrow> fail_with env (err_mark @ '' Error writing output file: '' @ e) w10
      | (Inr done_, w10) \<Rightarrow> (Return (), w10)))))))))))"

section \<open>The command line\<close>

text \<open>
  What the user supplied, after argparse has split the command line: the positional
  words in order, whether \<^verbatim>\<open>--list-voices\<close> stands there, and the values of
  \<^verbatim>\<open>--voice\<close> and \<^verbatim>\<open>--language\<close> when given.
\<close>

record command_line =
  cl_positionals :: "string list"
  cl_list_voices :: bool
  cl_voice :: "string option"
  cl_language :: "string option"

record Namespace =
  arg_input_file :: "string option"
  arg_output_file :: "string option"
  arg_list_voices :: bool
  arg_voice :: string
  arg_language :: string

text \<open>
  The parser of \<open>main\<close>: two positionals with \<^verbatim>\<open>nargs='?'\<close> (absent is
  \<^verbatim>\<open>None\<close>), a \<^verbatim>\<open>store_true\<close> flag and two options with defaults. A third
  positional is a usage error, on which argparse itself ends the process with status 2
  (its message goes to the error stream, which the world does not record). Command
  lines with \<^verbatim>\<open>-h\<close> or an unknown option also end inside argparse; the record
  above has no place for them.
\<close>

fun parse_positionals :: "string list \<Rightarrow> (string option \<times> string option) option" where
  "parse_positionals [] = Some (None, None)"
| "parse_positionals [a] = Some (Some a, None)"
| "parse_positionals [a, b] = Some (Some a, Some b)"
| "parse_positionals (a # b # c # rest) = None"

definition parse_args :: "command_line \<Rightarrow> Namespace option" where
  "parse_args cl =
     (case parse_positionals (cl_positionals cl) of
        None \<Rightarrow> None
      | Some (inp, out) \<Rightarrow>
          Some \<lparr>arg_input_file = inp,
                arg_output_file = out,
                arg_list_voices = cl_list_voices cl,
                arg_voice = (case cl_voice cl of None \<Rightarrow> ''en-US-Wavenet-D'' | Some v \<Rightarrow> v),
                arg_language = (case cl_language cl of None \<Rightarrow> ''en-US'' | Some l \<Rightarrow> l)\<rparr>)"

text \<open>Python's \<^verbatim>\<open>not x\<close> for a value that is \<^verbatim>\<open>None\<close> or a string.\<close>

definition py_not :: "string option \<Rightarrow> bool" where
  "py_not x = (case x of None \<Rightarrow> True | Some s \<Rightarrow> s = [])"

text \<open>
  \<^verbatim>\<open>parser.print_help()\<close> writes the usage text to the console. The text is made
  of the parser's own ASCII strings, which every console encoding has, so this write
  does not raise. In the last branch of \<open>main\<close> both positionals are present and not
  empty, so \<open>the\<close> is applied to \<open>Some\<close> only.
\<close>

definition print_help :: "env \<Rightarrow> world \<Rightarrow> world" where
  "print_help env w = w\<lparr>stdout := stdout w @ [format_help env]\<rparr>"

definition main :: "env \<Rightarrow> command_line \<Rightarrow> world \<Rightarrow> unit res \<times> world" where
  "main env cl w =
     (case parse_args cl of
        None \<Rightarrow> (SysExit 2, w)
      | Some args \<Rightarrow>
          if arg_list_voices args then list_voices env (arg_language args) w
          else if py_not (arg_input_file args) \<or> py_not (arg_output_file args) then
            (SysExit 1, print_help env w)
          else
            text_to_speech env (the (arg_input_file args)) (the (arg_output_file args))
              (arg_voice args) (arg_language args) w)"

section \<open>Terms of the statements\<close>

text \<open>The calls a run adds to those made before it.\<close>

definition new_effects :: "world \<Rightarrow> world \<Rightarrow> effect list" where
  "new_effects w w' = drop (length (effects w)) (effects w')"

text \<open>
  The request that \<open>text_to_speech\<close> builds from the text, the voice name and the
  language code, and the lines it prints on the way to the request and after it.
\<close>

definition request_of :: "unicode \<Rightarrow> string \<Rightarrow> string \<Rightarrow> synthesis_request" where
  "request_of txt voice_name language_code =
     (\<lparr>si_text = txt\<rparr>, \<lparr>sel_language_code = language_code, sel_name = voice_name\<rparr>,
      \<lparr>audio_encoding = MP3\<rparr>)"

definition read_line :: "string \<Rightarrow> unicode \<Rightarrow> string" where
  "read_line input_file txt =
     ok_mark @ '' Read '' @ str_nat (length txt) @ '' characters from '' @ quoted input_file"

definition request_lines :: "string \<Rightarrow> string \<Rightarrow> string list" where
  "request_lines voice_name language_code =
     [ok_mark @ '' Connected to Google Cloud Text-to-Speech API'',
      ok_mark @ '' Using voice: '' @ voice_name @ '' ('' @ language_code @ '')'',
      busy_mark @ '' Synthesizing speech...'']"

text \<open>The world when the client is about to be created, and when the request is sent.\<close>

definition after_read :: "string \<Rightarrow> unicode \<Rightarrow> world \<Rightarrow> world" where
  "after_read input_file txt w = emit (read_line input_file txt) (perform (OpenRead input_file) w)"

definition before_synthesis :: "string \<Rightarrow> string \<Rightarrow> world \<Rightarrow> world" where
  "before_synthesis voice_name language_code w =
     emit (busy_mark @ '' Synthesizing speech...'')
       (emit (ok_mark @ '' Using voice: '' @ voice_name @ '' ('' @ language_code @ '')'')
          (emit (ok_mark @ '' Connected to Google Cloud Text-to-Speech API'')
             (perform CreateClient w)))"

definition progress_lines :: "string \<Rightarrow> string \<Rightarrow> string \<Rightarrow> string \<Rightarrow> unicode \<Rightarrow> string list" where
  "progress_lines input_file output_file voice_name language_code txt =
     read_line input_file txt # request_lines voice_name language_code @
     [ok_mark @ '' Speech synthesis complete'',
      ok_mark @ '' Audio content written to '' @ quoted output_file]"

text \<open>
  The report of the listing flow as the spec words it: a banner that names the
  language code, then for each voice its name, its language codes joined by commas, the
  label of its gender, its sample rate in Hertz and a divider line.
\<close>

definition gender_label :: "int \<Rightarrow> string" where
  "gender_label i = (case SsmlVoiceGender_of i of None \<Rightarrow> [] | Some g \<Rightarrow> gender_name g)"

definition banner_lines :: "string \<Rightarrow> string list" where
  "banner_lines language_code =
     [CHR 0x0A # replicate 60 CHR ''='',
      ''Available voices for language: '' @ language_code,
      replicate 60 CHR ''='' @ [CHR 0x0A]]"

definition voice_record :: "Voice \<Rightarrow> string list" where
  "voice_record v =
     [''Name: '' @ v_name v,
      ''Languages: '' @ join '', '' (v_language_codes v),
      ''Gender: '' @ gender_label (v_ssml_gender v),
      ''Natural Sample Rate: '' @ str_int (v_natural_sample_rate_hertz v) @ '' Hz'',
      divider]"

subsection \<open>A sample environment\<close>

text \<open>
  A service that knows one voice and answers every request with the same three bytes,
  a console that accepts every line, and a disk that holds a two-byte input file and an
  older output file. \<open>odd_env\<close> differs in the catalog: its only voice has a gender
  value outside the enumeration.
\<close>

definition sample_voice :: Voice where
  "sample_voice = \<lparr>v_name = ''en-US-Wavenet-D'', v_language_codes = [''en-US''],
     v_ssml_gender = 1, v_natural_sample_rate_hertz = 24000\<rparr>"

definition sample_env :: env where
  "sample_env = \<lparr>path_fault = (\<lambda>path. None),
     read_text = (\<lambda>path content. Inr (map unat content)),
     client_fault = None,
     remote_list_voices = (\<lambda>language_code. Inr [sample_voice]),
     remote_synthesize = (\<lambda>request. Inr [0x49, 0x44, 0x33]),
     open_write_fault = (\<lambda>path. None),
     write_fault = (\<lambda>path content. None),
     encode_fault = (\<lambda>line. None),
     format_help = ''usage: s2t-gcp.py [-h] [--list-voices] [--voice VOICE] [--language LANGUAGE] [input_file] [output_file]''\<rparr>"

definition sample_world :: world where
  "sample_world = \<lparr>files = [''in.txt'' \<mapsto> [0x68, 0x69], ''out.mp3'' \<mapsto> [0x01, 0x02]],
     stdout = [], effects = []\<rparr>"

definition odd_voice :: Voice where
  "odd_voice = \<lparr>v_name = ''en-US-Future-X'', v_language_codes = [''en-US''],
     v_ssml_gender = 7, v_natural_sample_rate_hertz = 24000\<rparr>"

definition odd_env :: env where
  "odd_env = sample_env\<lparr>remote_list_voices := (\<lambda>language_code. Inr [odd_voice])\<rparr>"

text \<open>Three command lines: listing, synthesis, and synthesis with an empty input path.\<close>

definition listing_cl :: command_line where
  "listing_cl = \<lparr>cl_positionals = [], cl_list_voices = True, cl_voice = None,
     cl_language = None\<rparr>"

definition synthesis_cl :: command_line where
  "synthesis_cl = \<lparr>cl_positionals = [''in.txt'', ''out.mp3''], cl_list_voices = False,
     cl_voice = None, cl_language = None\<rparr>"

definition empty_input_cl :: command_line where
  "empty_input_cl = \<lparr>cl_positionals = [[], ''out.mp3''], cl_list_voices = False,
     cl_voice = None, cl_language = None\<rparr>"

section \<open>Basic facts about the two flows\<close>

lemma files_perform [simp]: "files (perform e w) = files w"
  and stdout_perform [simp]: "stdout (perform e w) = stdout w"
  and effects_perform [simp]: "effects (perform e w) = effects w @ [e]"
  by (simp_all add: perform_def)

lemma files_emit [simp]: "files (emit s w) = files w"
  and effects_emit [simp]: "effects (emit s w) = effects w"
  and stdout_emit [simp]: "stdout (emit s w) = stdout w @ [s]"
  by (simp_all add: emit_def)

lemma print_accepted: "encode_fault env s = None \<Longrightarrow> print env s w = (Inr (), emit s w)"
  by (simp add: print_def)

lemma print_refused: "encode_fault env s = Some e \<Longrightarrow> print env s w = (Inl e, w)"
  by (simp add: print_def)

lemma print_frame [simp]:
  "files (snd (print env s w)) = files w" "effects (snd (print env s w)) = effects w"
  by (simp_all add: print_def split: option.splits)

lemma fail_with_accepted:
  "encode_fault env s = None \<Longrightarrow> fail_with env s w = (SysExit 1, emit s w)"
  by (simp add: fail_with_def print_def)

lemma fail_with_refused: "encode_fault env s = Some e \<Longrightarrow> fail_with env s w = (Uncaught e, w)"
  by (simp add: fail_with_def print_def)

lemma fail_with_status [simp]: "exit_status (fst (fail_with env s w)) = 1"
  by (simp add: fail_with_def print_def exit_status_def split: option.splits)

lemma fail_with_frame [simp]:
  "files (snd (fail_with env s w)) = files w" "effects (snd (fail_with env s w)) = effects w"
  by (simp_all add: fail_with_def print_def split: option.splits)

lemma fail_with_no_return [simp]: "fail_with env s w \<noteq> (Return u, w')"
  "fst (fail_with env s w) \<noteq> Return u"
  by (simp_all add: fail_with_def print_def split: option.splits)

lemma and_then_Inl [simp]: "and_then (Inl e, w) f = (Inl e, w)"
  and and_then_Inr [simp]: "and_then (Inr x, w) f = f x w"
  by (simp_all add: and_then_def)

lemma new_effects_append [simp]: "effects w' = effects w @ es \<Longrightarrow> new_effects w w' = es"
  by (simp add: new_effects_def)

lemma new_effects_same [simp]: "effects w' = effects w \<Longrightarrow> new_effects w w' = []"
  by (simp add: new_effects_def)

lemma files_after_read [simp]: "files (after_read input_file txt w) = files w"
  and effects_after_read [simp]:
    "effects (after_read input_file txt w) = effects w @ [OpenRead input_file]"
  and stdout_after_read [simp]:
    "stdout (after_read input_file txt w) = stdout w @ [read_line input_file txt]"
  by (simp_all add: after_read_def)

lemma files_before_synthesis [simp]: "files (before_synthesis v l w) = files w"
  and effects_before_synthesis [simp]:
    "effects (before_synthesis v l w) = effects w @ [CreateClient]"
  and stdout_before_synthesis [simp]:
    "stdout (before_synthesis v l w) = stdout w @ request_lines v l"
  by (simp_all add: before_synthesis_def request_lines_def)

lemma tts_missing:
  "files w input_file = None \<Longrightarrow> path_fault env input_file = None \<Longrightarrow>
   text_to_speech env input_file output_file voice_name language_code w =
     fail_with env (err_mark @ '' Error: Input file '' @ quoted input_file @ '' not found.'')
       (perform (OpenRead input_file) w)"
  by (simp add: text_to_speech_def open_read_def)

lemma tts_refused:
  "files w input_file = None \<Longrightarrow> path_fault env input_file = Some e \<Longrightarrow>
   text_to_speech env input_file output_file voice_name language_code w =
     fail_with env (err_mark @ '' Error reading input file: '' @ e)
       (perform (OpenRead input_file) w)"
  by (simp add: text_to_speech_def open_read_def)

lemma tts_unreadable:
  "files w input_file = Some content \<Longrightarrow> read_text env input_file content = Inl e \<Longrightarrow>
   text_to_speech env input_file output_file voice_name language_code w =
     fail_with env (err_mark @ '' Error reading input file: '' @ e)
       (perform (OpenRead input_file) w)"
  by (simp add: text_to_speech_def open_read_def)

lemma tts_unreported:
  "files w input_file = Some content \<Longrightarrow> read_text env input_file content = Inr txt \<Longrightarrow>
   encode_fault env (read_line input_file txt) = Some e \<Longrightarrow>
   text_to_speech env input_file output_file voice_name language_code w =
     fail_with env (err_mark @ '' Error reading input file: '' @ e)
       (perform (OpenRead input_file) w)"
  by (simp add: text_to_speech_def open_read_def read_line_def print_def)

lemma tts_client_fault:
  "files w input_file = Some content \<Longrightarrow> read_text env input_file content = Inr txt \<Longrightarrow>
   encode_fault env (read_line input_file txt) = None \<Longrightarrow>
   client_fault env = Some e \<Longrightarrow>
   text_to_speech env input_file output_file voice_name language_code w =
     fail_with env (err_mark @ '' Error creating client: '' @ e)
       (perform CreateClient (after_read input_file txt w))"
  by (simp add: text_to_speech_def open_read_def read_line_def print_def
      TextToSpeechClient_def after_read_def)

lemma tts_unconnected:
  "files w input_file = Some content \<Longrightarrow> read_text env input_file content = Inr txt \<Longrightarrow>
   encode_fault env (read_line input_file txt) = None \<Longrightarrow>
   client_fault env = None \<Longrightarrow>
   encode_fault env (ok_mark @ '' Connected to Google Cloud Text-to-Speech API'') = Some e \<Longrightarrow>
   text_to_speech env input_file output_file voice_name language_code w =
     fail_with env (err_mark @ '' Error creating client: '' @ e)
       (perform CreateClient (after_read input_file txt w))"
  by (simp add: text_to_speech_def open_read_def read_line_def print_def
      TextToSpeechClient_def after_read_def)

lemma tts_unnamed:
  "files w input_file = Some content \<Longrightarrow> read_text env input_file content = Inr txt \<Longrightarrow>
   encode_fault env (read_line input_file txt) = None \<Longrightarrow>
   client_fault env = None \<Longrightarrow>
   encode_fault env (ok_mark @ '' Connected to Google Cloud Text-to-Speech API'') = None \<Longrightarrow>
   encode_fault env (ok_mark @ '' Using voice: '' @ voice_name @ '' ('' @ language_code @ '')'')
     = Some e \<Longrightarrow>
   text_to_speech env input_file output_file voice_name language_code w =
     (Uncaught e,
      emit (ok_mark @ '' Connected to Google Cloud Text-to-Speech API'')
        (perform CreateClient (after_read input_file txt w)))"
  by (simp add: text_to_speech_def open_read_def read_line_def print_def
      TextToSpeechClient_def after_read_def)

lemma tts_unannounced:
  "files w input_file = Some content \<Longrightarrow> read_text env input_file content = Inr txt \<Longrightarrow>
   encode_fault env (read_line input_file txt) = None \<Longrightarrow>
   client_fault env = None \<Longrightarrow>
   encode_fault env (ok_mark @ '' Connected to Google Cloud Text-to-Speech API'') = None \<Longrightarrow>
   encode_fault env (ok_mark @ '' Using voice: '' @ voice_name @ '' ('' @ language_code @ '')'')
     = None \<Longrightarrow>
   encode_fault env (busy_mark @ '' Synthesizing speech...'') = Some e \<Longrightarrow>
   text_to_speech env input_file output_file voice_name language_code w =
     fail_with env (err_mark @ '' Error during synthesis: '' @ e)
       (emit (ok_mark @ '' Using voice: '' @ voice_name @ '' ('' @ language_code @ '')'')
          (emit (ok_mark @ '' Connected to Google Cloud Text-to-Speech API'')
             (perform CreateClient (after_read input_file txt w))))"
  by (simp add: text_to_speech_def open_read_def read_line_def print_def
      TextToSpeechClient_def after_read_def)

lemma tts_synthesis_fault:
  "files w input_file = Some content \<Longrightarrow> read_text env input_file content = Inr txt \<Longrightarrow>
   encode_fault env (read_line input_file txt) = None \<Longrightarrow>
   client_fault env = None \<Longrightarrow>
   \<forall>s\<in>set (request_lines voice_name language_code). encode_fault env s = None \<Longrightarrow>
   remote_synthesize env (request_of txt voice_name language_code) = Inl e \<Longrightarrow>
   text_to_speech env input_file output_file voice_name language_code w =
     fail_with env (err_mark @ '' Error during synthesis: '' @ e)
       (perform (SynthesizeCall (request_of txt voice_name language_code))
          (before_synthesis voice_name language_code (after_read input_file txt w)))"
  by (simp add: text_to_speech_def open_read_def read_line_def request_lines_def print_def
      TextToSpeechClient_def synthesize_speech_def request_of_def after_read_def
      before_synthesis_def)

lemma tts_uncompleted:
  "files w input_file = Some content \<Longrightarrow> read_text env input_file content = Inr txt \<Longrightarrow>
   encode_fault env (read_line input_file txt) = None \<Longrightarrow>
   client_fault env = None \<Longrightarrow>
   \<forall>s\<in>set (request_lines voice_name language_code). encode_fault env s = None \<Longrightarrow>
   remote_synthesize env (request_of txt voice_name language_code) = Inr audio \<Longrightarrow>
   encode_fault env (ok_mark @ '' Speech synthesis complete'') = Some e \<Longrightarrow>
   text_to_speech env input_file output_file voice_name language_code w =
     fail_with env (err_mark @ '' Error during synthesis: '' @ e)
       (perform (SynthesizeCall (request_of txt voice_name language_code))
          (before_synthesis voice_name language_code (after_read input_file txt w)))"
  by (simp add: text_to_speech_def open_read_def read_line_def request_lines_def print_def
      TextToSpeechClient_def synthesize_speech_def request_of_def after_read_def
      before_synthesis_def)

lemma tts_synthesized:
  "files w input_file = Some content \<Longrightarrow> read_text env input_file content = Inr txt \<Longrightarrow>
   encode_fault env (read_line input_file txt) = None \<Longrightarrow>
   client_fault env = None \<Longrightarrow>
   \<forall>s\<in>set (request_lines voice_name language_code). encode_fault env s = None \<Longrightarrow>
   remote_synthesize env (request_of txt voice_name language_code) = Inr audio \<Longrightarrow>
   encode_fault env (ok_mark @ '' Speech synthesis complete'') = None \<Longrightarrow>
   text_to_speech env input_file output_file voice_name language_code w =
     (case write_binary env output_file audio
        (emit (ok_mark @ '' Speech synthesis complete'')
           (perform (SynthesizeCall (request_of txt voice_name language_code))
              (before_synthesis voice_name language_code (after_read input_file txt w)))) of
        (Inl e, w9) \<Rightarrow> fail_with env (err_mark @ '' Error writing output file: '' @ e) w9
      | (Inr done_, w9) \<Rightarrow>
          (case print env (ok_mark @ '' Audio content written to '' @ quoted output_file) w9 of
             (Inl e, w10) \<Rightarrow> fail_with env (err_mark @ '' Error writing output file: '' @ e) w10
           | (Inr done_, w10) \<Rightarrow> (Return (), w10)))"
  by (simp add: text_to_speech_def open_read_def read_line_def request_lines_def print_def
      TextToSpeechClient_def synthesize_speech_def request_of_def after_read_def
      before_synthesis_def)

lemma write_binary_ok:
  "open_write_fault env path = None \<Longrightarrow> write_fault env path content = None \<Longrightarrow>
   write_binary env path content w =
     (Inr (), w\<lparr>files := (files w)(path \<mapsto> content),
                effects := effects w @ [OpenWrite path, WriteBytes path content]\<rparr>)"
  by (simp add: write_binary_def perform_def)

lemma write_binary_closed:
  "open_write_fault env path = Some e \<Longrightarrow>
   write_binary env path content w = (Inl e, perform (OpenWrite path) w)"
  by (simp add: write_binary_def)

lemma write_binary_Inr:
  "write_binary env path content w = (Inr u, w') \<Longrightarrow>
   files w' = (files w)(path \<mapsto> content) \<and> stdout w' = stdout w \<and>
   effects w' = effects w @ [OpenWrite path, WriteBytes path content]"
  by (auto simp add: write_binary_def perform_def Let_def split: option.splits)

lemma write_binary_effects:
  "\<exists>es. effects (snd (write_binary env path content w)) = effects w @ es \<and>
        set es \<subseteq> {OpenWrite path, WriteBytes path content}"
  by (auto simp add: write_binary_def Let_def split: option.splits)

lemma tts_written:
  assumes "files w input_file = Some content"
    and "read_text env input_file content = Inr txt"
    and "client_fault env = None"
    and "remote_synthesize env (request_of txt voice_name language_code) = Inr audio"
    and "open_write_fault env output_file = None"
    and "write_fault env output_file audio = None"
    and "\<forall>s\<in>set (progress_lines input_file output_file voice_name language_code txt).
           encode_fault env s = None"
  shows "text_to_speech env input_file output_file voice_name language_code w =
           (Return (),
            w\<lparr>files := (files w)(output_file \<mapsto> audio),
              stdout := stdout w @
                progress_lines input_file output_file voice_name language_code txt,
              effects := effects w @
                [OpenRead input_file, CreateClient,
                 SynthesizeCall (request_of txt voice_name language_code),
                 OpenWrite output_file, WriteBytes output_file audio]\<rparr>)"
proof -
  from assms(7) have a: "encode_fault env (read_line input_file txt) = None"
    and b: "\<forall>s\<in>set (request_lines voice_name language_code). encode_fault env s = None"
    and c: "encode_fault env (ok_mark @ '' Speech synthesis complete'') = None"
    and d: "encode_fault env (ok_mark @ '' Audio content written to '' @ quoted output_file) = None"
    by (simp_all add: progress_lines_def)
  from d show ?thesis
    by (simp add: tts_synthesized [OF assms(1,2) a assms(3) b assms(4) c]
        write_binary_ok [OF assms(5,6)] print_def progress_lines_def emit_def)
qed

lemma tts_outcome:
  "(\<not> (\<exists>u. fst (text_to_speech env input_file output_file voice_name language_code w)
            = Return u) \<and>
    files (snd (text_to_speech env input_file output_file voice_name language_code w))
      = files w \<and>
    (\<exists>es. effects (snd (text_to_speech env input_file output_file voice_name language_code w))
            = effects w @ es \<and>
          (\<forall>x\<in>set es. x = OpenRead input_file \<or> x = CreateClient \<or>
             (\<exists>txt. x = SynthesizeCall (request_of txt voice_name language_code)))))
   \<or> (\<exists>content txt audio w8.
        files w input_file = Some content \<and> read_text env input_file content = Inr txt \<and>
        client_fault env = None \<and>
        remote_synthesize env (request_of txt voice_name language_code) = Inr audio \<and>
        files w8 = files w \<and>
        effects w8 = effects w @ [OpenRead input_file, CreateClient,
              SynthesizeCall (request_of txt voice_name language_code)] \<and>
        text_to_speech env input_file output_file voice_name language_code w =
          (case write_binary env output_file audio w8 of
             (Inl e, w9) \<Rightarrow> fail_with env (err_mark @ '' Error writing output file: '' @ e) w9
           | (Inr done_, w9) \<Rightarrow>
               (case print env (ok_mark @ '' Audio content written to '' @ quoted output_file)
                       w9 of
                  (Inl e, w10) \<Rightarrow>
                    fail_with env (err_mark @ '' Error writing output file: '' @ e) w10
                | (Inr done_, w10) \<Rightarrow> (Return (), w10))))"
  (is "?early \<or> ?late")
proof (cases "files w input_file")
  case None
  then have "?early"
    by (cases "path_fault env input_file") (simp_all add: tts_missing tts_refused fail_with_def
        print_def split: option.splits)
  then show ?thesis ..
next
  case (Some content)
  note inp = this
  show ?thesis
  proof (cases "read_text env input_file content")
    case (Inl e)
    with inp have "?early"
      by (simp add: tts_unreadable fail_with_def print_def split: option.splits)
    then show ?thesis ..
  next
    case (Inr tx)
    note rd = this
    show ?thesis
    proof (cases "encode_fault env (read_line input_file tx)")
      case (Some e)
      with inp rd have "?early"
        by (simp add: tts_unreported fail_with_def print_def split: option.splits)
      then show ?thesis ..
    next
      case None
      note l1 = this
      show ?thesis
      proof (cases "client_fault env")
        case (Some e)
        with inp rd l1 have "?early"
          by (simp add: tts_client_fault fail_with_def print_def split: option.splits)
        then show ?thesis ..
      next
        case None
        note cl = this
        show ?thesis
        proof (cases "encode_fault env (ok_mark @ '' Connected to Google Cloud Text-to-Speech API'')")
          case (Some e)
          from tts_unconnected [OF inp rd l1 cl Some] have "?early"
            by (simp add: fail_with_def print_def split: option.splits)
          then show ?thesis ..
        next
          case None
          note l2 = this
          show ?thesis
          proof (cases "encode_fault env
              (ok_mark @ '' Using voice: '' @ voice_name @ '' ('' @ language_code @ '')'')")
            case (Some e)
            from tts_unnamed [OF inp rd l1 cl l2 Some] have "?early"
              by simp
            then show ?thesis ..
          next
            case None
            note l3 = this
            show ?thesis
            proof (cases "encode_fault env (busy_mark @ '' Synthesizing speech...'')")
              case (Some e)
              from tts_unannounced [OF inp rd l1 cl l2 l3 Some] have "?early"
                by (simp add: fail_with_def print_def split: option.splits)
              then show ?thesis ..
            next
              case None
              with l2 l3 have rl:
                "\<forall>s\<in>set (request_lines voice_name language_code). encode_fault env s = None"
                by (simp add: request_lines_def)
              show ?thesis
              proof (cases "remote_synthesize env (request_of tx voice_name language_code)")
                case (Inl e)
                from tts_synthesis_fault [OF inp rd l1 cl rl Inl] have "?early"
                  by (auto simp add: fail_with_def print_def split: option.splits)
                then show ?thesis ..
              next
                case (Inr audio)
                note au = this
                show ?thesis
                proof (cases "encode_fault env (ok_mark @ '' Speech synthesis complete'')")
                  case (Some e)
                  from tts_uncompleted [OF inp rd l1 cl rl au Some] have "?early"
                    by (auto simp add: fail_with_def print_def split: option.splits)
                  then show ?thesis ..
                next
                  case None
                  from tts_synthesized [OF inp rd l1 cl rl au None] inp rd cl au have "?late"
                    by (intro exI [of _ content] exI [of _ tx] exI [of _ audio]
                        exI [of _ "emit (ok_mark @ '' Speech synthesis complete'')
                          (perform (SynthesizeCall (request_of tx voice_name language_code))
                            (before_synthesis voice_name language_code
                              (after_read input_file tx w)))"] conjI) simp_all
                  then show ?thesis ..
                qed
              qed
            qed
          qed
        qed
      qed
    qed
  qed
qed

lemma write_stage_effects:
  "effects (snd (case m of
       (Inl e, w9) \<Rightarrow> fail_with env (a e) w9
     | (Inr done_, w9) \<Rightarrow>
         (case print env s w9 of
            (Inl e, w10) \<Rightarrow> fail_with env (b e) w10
          | (Inr done_, w10) \<Rightarrow> (Return (), w10)))) = effects (snd m)"
  by (cases m; cases "fst m") (auto simp add: print_def split: option.splits)

lemma write_stage_returns:
  assumes "(case m of
       (Inl e, w9) \<Rightarrow> fail_with env (a e) w9
     | (Inr done_, w9) \<Rightarrow>
         (case print env s w9 of
            (Inl e, w10) \<Rightarrow> fail_with env (b e) w10
          | (Inr done_, w10) \<Rightarrow> (Return (), w10))) = (Return u, w')"
  shows "\<exists>w9. m = (Inr (), w9) \<and> files w' = files w9"
  using assms
  by (cases m; cases "fst m") (auto simp add: print_def split: option.splits)

lemma tts_returns:
  assumes "text_to_speech env input_file output_file voice_name language_code w = (Return u, w')"
  shows "\<exists>content txt audio.
           files w input_file = Some content \<and> read_text env input_file content = Inr txt \<and>
           client_fault env = None \<and>
           remote_synthesize env (request_of txt voice_name language_code) = Inr audio \<and>
           files w' = (files w)(output_file \<mapsto> audio)"
proof -
  from assms have "fst (text_to_speech env input_file output_file voice_name language_code w)
      = Return u"
    by simp
  with tts_outcome [of env input_file output_file voice_name language_code w]
  obtain content tx audio w8 where
    a: "files w input_file = Some content" "read_text env input_file content = Inr tx"
      "client_fault env = None"
      "remote_synthesize env (request_of tx voice_name language_code) = Inr audio"
    and w8: "files w8 = files w"
    and run: "text_to_speech env input_file output_file voice_name language_code w =
          (case write_binary env output_file audio w8 of
             (Inl e, w9) \<Rightarrow> fail_with env (err_mark @ '' Error writing output file: '' @ e) w9
           | (Inr done_, w9) \<Rightarrow>
               (case print env (ok_mark @ '' Audio content written to '' @ quoted output_file)
                       w9 of
                  (Inl e, w10) \<Rightarrow>
                    fail_with env (err_mark @ '' Error writing output file: '' @ e) w10
                | (Inr done_, w10) \<Rightarrow> (Return (), w10)))"
    by blast
  from run assms have "(case write_binary env output_file audio w8 of
             (Inl e, w9) \<Rightarrow> fail_with env (err_mark @ '' Error writing output file: '' @ e) w9
           | (Inr done_, w9) \<Rightarrow>
               (case print env (ok_mark @ '' Audio content written to '' @ quoted output_file)
                       w9 of
                  (Inl e, w10) \<Rightarrow>
                    fail_with env (err_mark @ '' Error writing output file: '' @ e) w10
                | (Inr done_, w10) \<Rightarrow> (Return (), w10))) = (Return u, w')"
    by simp
  from write_stage_returns [OF this] obtain w9 where
    "write_binary env output_file audio w8 = (Inr (), w9)" "files w' = files w9"
    by blast
  with write_binary_Inr [of env output_file audio w8 "()" w9] w8
  have "files w' = (files w)(output_file \<mapsto> audio)"
    by simp
  with a show ?thesis
    by blast
qed

lemma tts_effects:
  "\<exists>es. effects (snd (text_to_speech env input_file output_file voice_name language_code w))
          = effects w @ es \<and>
        (\<forall>request. SynthesizeCall request \<in> set es \<longrightarrow>
           (\<exists>txt. request = request_of txt voice_name language_code)) \<and>
        (\<forall>l. ListVoicesCall l \<notin> set es) \<and>
        (\<forall>path data. WriteBytes path data \<in> set es \<longrightarrow>
           path = output_file \<and>
           (\<exists>content txt. files w input_file = Some content \<and>
              read_text env input_file content = Inr txt \<and>
              remote_synthesize env (request_of txt voice_name language_code) = Inr data))"
  using tts_outcome [of env input_file output_file voice_name language_code w]
proof (elim disjE conjE exE)
  fix es
  assume "effects (snd (text_to_speech env input_file output_file voice_name language_code w))
      = effects w @ es"
    and "\<forall>x\<in>set es. x = OpenRead input_file \<or> x = CreateClient \<or>
           (\<exists>txt. x = SynthesizeCall (request_of txt voice_name language_code))"
  then show ?thesis
    by (intro exI [of _ es]) auto
next
  fix content tx audio w8
  assume inp: "files w input_file = Some content"
    and rd: "read_text env input_file content = Inr tx"
    and au: "remote_synthesize env (request_of tx voice_name language_code) = Inr audio"
    and w8: "effects w8 = effects w @ [OpenRead input_file, CreateClient,
              SynthesizeCall (request_of tx voice_name language_code)]"
    and run: "text_to_speech env input_file output_file voice_name language_code w =
          (case write_binary env output_file audio w8 of
             (Inl e, w9) \<Rightarrow> fail_with env (err_mark @ '' Error writing output file: '' @ e) w9
           | (Inr done_, w9) \<Rightarrow>
               (case print env (ok_mark @ '' Audio content written to '' @ quoted output_file)
                       w9 of
                  (Inl e, w10) \<Rightarrow>
                    fail_with env (err_mark @ '' Error writing output file: '' @ e) w10
                | (Inr done_, w10) \<Rightarrow> (Return (), w10)))"
  from write_binary_effects [of env output_file audio w8] obtain es where
    es: "effects (snd (write_binary env output_file audio w8)) = effects w8 @ es"
      "set es \<subseteq> {OpenWrite output_file, WriteBytes output_file audio}"
    by blast
  have "effects (snd (text_to_speech env input_file output_file voice_name language_code w))
      = effects (snd (write_binary env output_file audio w8))"
    unfolding run by (rule write_stage_effects)
  with es w8
  have "effects (snd (text_to_speech env input_file output_file voice_name language_code w))
      = effects w @ ([OpenRead input_file, CreateClient,
              SynthesizeCall (request_of tx voice_name language_code)] @ es)"
    by simp
  moreover from es(2) inp rd au
  have "(\<forall>request. SynthesizeCall request \<in> set ([OpenRead input_file, CreateClient,
              SynthesizeCall (request_of tx voice_name language_code)] @ es) \<longrightarrow>
           (\<exists>txt. request = request_of txt voice_name language_code)) \<and>
        (\<forall>l. ListVoicesCall l \<notin> set ([OpenRead input_file, CreateClient,
              SynthesizeCall (request_of tx voice_name language_code)] @ es)) \<and>
        (\<forall>path data. WriteBytes path data \<in> set ([OpenRead input_file, CreateClient,
              SynthesizeCall (request_of tx voice_name language_code)] @ es) \<longrightarrow>
           path = output_file \<and>
           (\<exists>content txt. files w input_file = Some content \<and>
              read_text env input_file content = Inr txt \<and>
              remote_synthesize env (request_of txt voice_name language_code) = Inr data))"
    by auto
  ultimately show ?thesis
    by blast
qed

lemma print_banner_accepted:
  "\<forall>s\<in>set (banner_lines language_code). encode_fault env s = None \<Longrightarrow>
   print_banner env language_code w =
     (Inr (), w\<lparr>stdout := stdout w @ banner_lines language_code\<rparr>)"
  by (simp add: print_banner_def banner_lines_def print_def emit_def)

lemma and_then_effects:
  assumes "effects (snd m) = effects w"
    and "\<And>x w1. effects w1 = effects w \<Longrightarrow> effects (snd (f x w1)) = effects w"
  shows "effects (snd (and_then m f)) = effects w"
  using assms by (cases m; cases "fst m") (auto simp add: and_then_def)

lemma to_gender_effects [simp]: "effects (snd (to_gender i w)) = effects w"
  by (simp add: to_gender_def split: option.splits)

lemma print_banner_effects [simp]: "effects (snd (print_banner env language_code w)) = effects w"
  unfolding print_banner_def
  by (intro and_then_effects) simp_all

lemma print_voices_effects [simp]: "effects (snd (print_voices env voices w)) = effects w"
proof (induction voices arbitrary: w)
  case Nil
  show ?case by simp
next
  case (Cons v voices)
  show ?case
    unfolding print_voices.simps
    by (intro and_then_effects) (simp_all add: Cons.IH)
qed

lemma print_voices_valid:
  "\<forall>v\<in>set voices. SsmlVoiceGender_of (v_ssml_gender v) \<noteq> None \<Longrightarrow>
   \<forall>s\<in>set (concat (map voice_record voices)). encode_fault env s = None \<Longrightarrow>
   print_voices env voices w =
     (Inr (), w\<lparr>stdout := stdout w @ concat (map voice_record voices)\<rparr>)"
proof (induction voices arbitrary: w)
  case Nil
  show ?case by simp
next
  case (Cons v voices)
  from Cons.prems(1) obtain g where g: "SsmlVoiceGender_of (v_ssml_gender v) = Some g"
    by auto
  from Cons.prems(1) have rest: "\<forall>v\<in>set voices. SsmlVoiceGender_of (v_ssml_gender v) \<noteq> None"
    by simp
  from Cons.prems(2) have lines: "\<forall>s\<in>set (voice_record v). encode_fault env s = None"
    and more: "\<forall>s\<in>set (concat (map voice_record voices)). encode_fault env s = None"
    by simp_all
  from lines show ?case
    by (simp add: g Cons.IH [OF rest more] voice_record_def gender_label_def print_def
        to_gender_def emit_def)
qed

lemma hd_divider: "hd divider = CHR ''-''"
  by (simp add: divider_def)

lemma divider_not_labelled: "c \<noteq> CHR ''-'' \<Longrightarrow> c # s \<noteq> divider"
  using hd_divider by (metis list.sel(1))

lemma rule_not_divider: "replicate 60 CHR ''='' @ [CHR 0x0A] \<noteq> divider"
proof
  assume "replicate 60 CHR ''='' @ [CHR 0x0A] = divider"
  then have "length (replicate 60 CHR ''='' @ [CHR 0x0A]) = length divider"
    by simp
  then show False
    by (simp add: divider_def)
qed

lemma count_divider_record: "count_list (voice_record v) divider = 1"
  by (simp add: voice_record_def divider_not_labelled)

lemma count_list_append: "count_list (xs @ ys) a = count_list xs a + count_list ys a"
  by (induction xs) simp_all

lemma count_divider_records:
  "count_list (concat (map voice_record voices)) divider = length voices"
  by (induction voices) (simp_all add: count_list_append count_divider_record)

lemma count_divider_banner: "count_list (banner_lines language_code) divider = 0"
  by (simp add: banner_lines_def divider_not_labelled rule_not_divider)

lemma gender_name_no_digit: "set (gender_name g) \<inter> set ''0123456789'' = {}"
  by (cases g) simp_all

lemma str_nat_digit: "n < 10 \<Longrightarrow> str_nat n = [digit n]"
  by (simp add: str_nat.simps)

lemma gender_label_not_code:
  "SsmlVoiceGender_of i = Some g \<Longrightarrow> gender_name g \<noteq> str_int i"
  by (auto simp add: SsmlVoiceGender_of_def str_int_def str_nat_digit split: if_splits)

lemma list_voices_client_fault:
  "client_fault env = Some e \<Longrightarrow>
   list_voices env language_code w =
     fail_with env (''Error creating client: '' @ e) (perform CreateClient w)"
  by (simp add: list_voices_def TextToSpeechClient_def)

lemma list_voices_query_fault:
  "client_fault env = None \<Longrightarrow> remote_list_voices env language_code = Inl e \<Longrightarrow>
   list_voices env language_code w =
     fail_with env (''Error listing voices: '' @ e)
       (perform (ListVoicesCall language_code) (perform CreateClient w))"
  by (simp add: list_voices_def TextToSpeechClient_def client_list_voices_def)

lemma list_voices_answered:
  "client_fault env = None \<Longrightarrow> remote_list_voices env language_code = Inr voices \<Longrightarrow>
   list_voices env language_code w =
     (case and_then (print_banner env language_code
                (perform (ListVoicesCall language_code) (perform CreateClient w)))
             (\<lambda>_ w3. print_voices env voices w3) of
        (Inl e, w4) \<Rightarrow> fail_with env (''Error listing voices: '' @ e) w4
      | (Inr done_, w4) \<Rightarrow> (Return (), w4))"
  by (simp add: list_voices_def TextToSpeechClient_def client_list_voices_def)

lemma report_effects:
  "effects (snd (case m of
       (Inl e, w4) \<Rightarrow> fail_with env (a e) w4
     | (Inr done_, w4) \<Rightarrow> (Return (), w4))) = effects (snd m)"
  by (cases m; cases "fst m") auto

lemma list_voices_effects:
  "\<exists>es. effects (snd (list_voices env language_code w)) = effects w @ es \<and>
        set es \<subseteq> {CreateClient, ListVoicesCall language_code}"
proof (cases "client_fault env")
  case (Some e)
  then show ?thesis by (simp add: list_voices_client_fault)
next
  case None
  show ?thesis
  proof (cases "remote_list_voices env language_code")
    case (Inl e)
    with None show ?thesis by (simp add: list_voices_query_fault)
  next
    case (Inr voices)
    have "effects (snd (and_then (print_banner env language_code
                (perform (ListVoicesCall language_code) (perform CreateClient w)))
             (\<lambda>_ w3. print_voices env voices w3)))
          = effects (perform (ListVoicesCall language_code) (perform CreateClient w))"
      by (intro and_then_effects) simp_all
    then have "effects (snd (list_voices env language_code w))
          = effects w @ [CreateClient, ListVoicesCall language_code]"
      by (simp add: list_voices_answered [OF None Inr] report_effects)
    then show ?thesis
      by simp
  qed
qed

lemma main_lists:
  "parse_args cl = Some args \<Longrightarrow> arg_list_voices args \<Longrightarrow>
   main env cl w = list_voices env (arg_language args) w"
  by (simp add: main_def)

lemma main_help:
  "parse_args cl = Some args \<Longrightarrow> \<not> arg_list_voices args \<Longrightarrow>
   py_not (arg_input_file args) \<or> py_not (arg_output_file args) \<Longrightarrow>
   main env cl w = (SysExit 1, print_help env w)"
  by (simp add: main_def)

lemma main_synthesizes:
  "parse_args cl = Some args \<Longrightarrow> \<not> arg_list_voices args \<Longrightarrow>
   arg_input_file args = Some inp \<Longrightarrow> arg_output_file args = Some out \<Longrightarrow>
   inp \<noteq> [] \<Longrightarrow> out \<noteq> [] \<Longrightarrow>
   main env cl w = text_to_speech env inp out (arg_voice args) (arg_language args) w"
  by (simp add: main_def py_not_def)

lemma py_not_iff: "py_not x \<longleftrightarrow> x = None \<or> x = Some []"
  by (simp add: py_not_def split: option.splits)

lemma parse_args_flag: "parse_args cl = Some args \<Longrightarrow> arg_list_voices args = cl_list_voices cl"
  by (auto simp add: parse_args_def split: option.splits)

lemma parse_args_voice:
  "parse_args cl = Some args \<Longrightarrow>
   arg_voice args = (case cl_voice cl of None \<Rightarrow> ''en-US-Wavenet-D'' | Some v \<Rightarrow> v)"
  by (auto simp add: parse_args_def split: option.splits)

lemma parse_args_language:
  "parse_args cl = Some args \<Longrightarrow>
   arg_language args = (case cl_language cl of None \<Rightarrow> ''en-US'' | Some l \<Rightarrow> l)"
  by (auto simp add: parse_args_def split: option.splits)

lemma parse_args_voice_update:
  "parse_args (cl\<lparr>cl_voice := v\<rparr>) =
     map_option (\<lambda>args. args\<lparr>arg_voice := (case v of None \<Rightarrow> ''en-US-Wavenet-D'' | Some x \<Rightarrow> x)\<rparr>)
       (parse_args cl)"
  by (simp add: parse_args_def split: option.splits)

lemma parse_listing_cl:
  "parse_args listing_cl = Some \<lparr>arg_input_file = None, arg_output_file = None,
     arg_list_voices = True, arg_voice = ''en-US-Wavenet-D'', arg_language = ''en-US''\<rparr>"
  by (simp add: parse_args_def listing_cl_def)

lemma parse_synthesis_cl:
  "parse_args synthesis_cl = Some \<lparr>arg_input_file = Some ''in.txt'',
     arg_output_file = Some ''out.mp3'', arg_list_voices = False,
     arg_voice = ''en-US-Wavenet-D'', arg_language = ''en-US''\<rparr>"
  by (simp add: parse_args_def synthesis_cl_def)

lemma parse_empty_input_cl:
  "parse_args empty_input_cl = Some \<lparr>arg_input_file = Some [],
     arg_output_file = Some ''out.mp3'', arg_list_voices = False,
     arg_voice = ''en-US-Wavenet-D'', arg_language = ''en-US''\<rparr>"
  by (simp add: parse_args_def empty_input_cl_def)

lemma sample_read: "files sample_world ''in.txt'' = Some [0x68, 0x69]"
  by (simp add: sample_world_def)

lemma sample_text: "read_text sample_env ''in.txt'' [0x68, 0x69] = Inr [104, 105]"
  by (simp add: sample_env_def)

lemma sample_console: "encode_fault sample_env s = None"
  by (simp add: sample_env_def)

lemma sample_blank: "stdout sample_world = []" "effects sample_world = []"
  by (simp_all add: sample_world_def)

lemma sample_run:
  "text_to_speech sample_env ''in.txt'' ''out.mp3'' ''en-US-Wavenet-D'' ''en-US'' sample_world =
     (Return (),
      sample_world\<lparr>files := (files sample_world)(''out.mp3'' \<mapsto> [0x49, 0x44, 0x33]),
        stdout := stdout sample_world @
          progress_lines ''in.txt'' ''out.mp3'' ''en-US-Wavenet-D'' ''en-US'' [104, 105],
        effects := effects sample_world @
          [OpenRead ''in.txt'', CreateClient,
           SynthesizeCall (request_of [104, 105] ''en-US-Wavenet-D'' ''en-US''),
           OpenWrite ''out.mp3'', WriteBytes ''out.mp3'' [0x49, 0x44, 0x33]]\<rparr>)"
proof -
  have a: "client_fault sample_env = None"
    and b: "remote_synthesize sample_env (request_of [104, 105] ''en-US-Wavenet-D'' ''en-US'')
              = Inr [0x49, 0x44, 0x33]"
    and c: "open_write_fault sample_env ''out.mp3'' = None"
    and d: "write_fault sample_env ''out.mp3'' [0x49, 0x44, 0x33] = None"
    and e: "\<forall>s\<in>set (progress_lines ''in.txt'' ''out.mp3'' ''en-US-Wavenet-D'' ''en-US''
              [104, 105]). encode_fault sample_env s = None"
    by (simp_all add: sample_env_def)
  from tts_written [OF sample_read sample_text a b c d e] show ?thesis .
qed

lemma sample_main_run:
  "main sample_env synthesis_cl sample_world =
     text_to_speech sample_env ''in.txt'' ''out.mp3'' ''en-US-Wavenet-D'' ''en-US'' sample_world"
  using main_synthesizes [OF parse_synthesis_cl, of "''in.txt''" "''out.mp3''" sample_env
      sample_world]
  by simp

lemma sample_main_effects:
  "new_effects sample_world (snd (main sample_env synthesis_cl sample_world)) =
     [OpenRead ''in.txt'', CreateClient,
      SynthesizeCall (request_of [104, 105] ''en-US-Wavenet-D'' ''en-US''),
      OpenWrite ''out.mp3'', WriteBytes ''out.mp3'' [0x49, 0x44, 0x33]]"
  by (simp add: sample_main_run sample_run)

section \<open>The claims\<close>

subsection \<open>The audio reaches the output file unchanged\<close>

text \<open>
  Claim C1, amended. When the input file can be read as text, the client can be
  created, the service answers the request with an audio payload, the console accepts
  the six progress lines and the output path can be opened and written,
  \<open>text_to_speech\<close> returns normally and the output path then holds exactly the
  bytes of the payload; the run makes five calls, in this order: the read, the client,
  the request, the open for writing and one write of the payload as it came. In every
  run, whatever its outcome, the only data handed to a write is the payload that the
  service returned for the text of the input file, and the only path written is the
  output path.
\<close>

theorem synthesis_passes_audio_through:
  "(files w input_file = Some content \<and> read_text env input_file content = Inr txt \<and>
    client_fault env = None \<and>
    remote_synthesize env (request_of txt voice_name language_code) = Inr audio \<and>
    open_write_fault env output_file = None \<and> write_fault env output_file audio = None \<and>
    (\<forall>s\<in>set (progress_lines input_file output_file voice_name language_code txt).
       encode_fault env s = None) \<longrightarrow>
    fst (text_to_speech env input_file output_file voice_name language_code w) = Return () \<and>
    files (snd (text_to_speech env input_file output_file voice_name language_code w))
      = (files w)(output_file \<mapsto> audio) \<and>
    new_effects w (snd (text_to_speech env input_file output_file voice_name language_code w))
      = [OpenRead input_file, CreateClient,
         SynthesizeCall (request_of txt voice_name language_code),
         OpenWrite output_file, WriteBytes output_file audio])
   \<and> (\<forall>path data.
        WriteBytes path data \<in> set (new_effects w
          (snd (text_to_speech env input_file output_file voice_name language_code w))) \<longrightarrow>
        path = output_file \<and>
        (\<exists>content txt. files w input_file = Some content \<and>
           read_text env input_file content = Inr txt \<and>
           remote_synthesize env (request_of txt voice_name language_code) = Inr data))"
  (is "(?given \<longrightarrow> ?passed) \<and> ?verbatim")
proof -
  have passes: "fst (text_to_speech env input_file output_file voice_name language_code w)
        = Return () \<and>
      files (snd (text_to_speech env input_file output_file voice_name language_code w))
        = (files w)(output_file \<mapsto> audio) \<and>
      new_effects w (snd (text_to_speech env input_file output_file voice_name language_code w))
        = [OpenRead input_file, CreateClient,
           SynthesizeCall (request_of txt voice_name language_code),
           OpenWrite output_file, WriteBytes output_file audio]"
    if "files w input_file = Some content" and "read_text env input_file content = Inr txt"
      and "client_fault env = None"
      and "remote_synthesize env (request_of txt voice_name language_code) = Inr audio"
      and "open_write_fault env output_file = None"
      and "write_fault env output_file audio = None"
      and "\<forall>s\<in>set (progress_lines input_file output_file voice_name language_code txt).
             encode_fault env s = None"
    by (simp add: tts_written [OF that])
  from tts_effects [of env input_file output_file voice_name language_code w] obtain es where
    "effects (snd (text_to_speech env input_file output_file voice_name language_code w))
       = effects w @ es"
    "\<forall>path data. WriteBytes path data \<in> set es \<longrightarrow>
           path = output_file \<and>
           (\<exists>content txt. files w input_file = Some content \<and>
              read_text env input_file content = Inr txt \<and>
              remote_synthesize env (request_of txt voice_name language_code) = Inr data)"
    by blast
  then have verbatim: "\<forall>path data.
        WriteBytes path data \<in> set (new_effects w
          (snd (text_to_speech env input_file output_file voice_name language_code w))) \<longrightarrow>
        path = output_file \<and>
        (\<exists>content txt. files w input_file = Some content \<and>
           read_text env input_file content = Inr txt \<and>
           remote_synthesize env (request_of txt voice_name language_code) = Inr data)"
    by simp
  have "?given \<longrightarrow> ?passed"
  proof
    assume given: ?given
    then have h1: "files w input_file = Some content"
      and h2: "read_text env input_file content = Inr txt"
      and h3: "client_fault env = None"
      and h4: "remote_synthesize env (request_of txt voice_name language_code) = Inr audio"
      and h5: "open_write_fault env output_file = None"
      and h6: "write_fault env output_file audio = None"
      and h7: "\<forall>s\<in>set (progress_lines input_file output_file voice_name language_code txt).
             encode_fault env s = None"
      by simp_all
    show ?passed
      by (rule passes [OF h1 h2 h3 h4 h5 h6 h7])
  qed
  with verbatim show ?thesis
    by (rule_tac conjI)
qed

text \<open>
  The sample run: the service answers with three bytes and the output file holds them.
\<close>

theorem synthesis_passes_audio_through_witness:
  "fst (text_to_speech sample_env ''in.txt'' ''out.mp3'' ''en-US-Wavenet-D'' ''en-US'' sample_world)
     = Return ()
   \<and> files (snd (text_to_speech sample_env ''in.txt'' ''out.mp3'' ''en-US-Wavenet-D'' ''en-US''
        sample_world)) ''out.mp3'' = Some [0x49, 0x44, 0x33]
   \<and> WriteBytes ''out.mp3'' [0x49, 0x44, 0x33] \<in> set (new_effects sample_world
        (snd (text_to_speech sample_env ''in.txt'' ''out.mp3'' ''en-US-Wavenet-D'' ''en-US''
          sample_world)))"
proof -
  have a: "client_fault sample_env = None"
    and b: "remote_synthesize sample_env (request_of [104, 105] ''en-US-Wavenet-D'' ''en-US'')
              = Inr [0x49, 0x44, 0x33]"
    and c: "open_write_fault sample_env ''out.mp3'' = None"
    and d: "write_fault sample_env ''out.mp3'' [0x49, 0x44, 0x33] = None"
    and e: "\<forall>s\<in>set (progress_lines ''in.txt'' ''out.mp3'' ''en-US-Wavenet-D'' ''en-US''
              [104, 105]). encode_fault sample_env s = None"
    by (simp_all add: sample_env_def)
  note run = synthesis_passes_audio_through [of sample_world "''in.txt''" "[0x68, 0x69]"
      sample_env "[104, 105]" "''en-US-Wavenet-D''" "''en-US''" "[0x49, 0x44, 0x33]" "''out.mp3''",
      THEN conjunct1, THEN mp]
  have "fst (text_to_speech sample_env ''in.txt'' ''out.mp3'' ''en-US-Wavenet-D'' ''en-US''
        sample_world) = Return ()
    \<and> files (snd (text_to_speech sample_env ''in.txt'' ''out.mp3'' ''en-US-Wavenet-D'' ''en-US''
        sample_world)) = (files sample_world)(''out.mp3'' \<mapsto> [0x49, 0x44, 0x33])
    \<and> new_effects sample_world (snd (text_to_speech sample_env ''in.txt'' ''out.mp3''
        ''en-US-Wavenet-D'' ''en-US'' sample_world))
      = [OpenRead ''in.txt'', CreateClient,
         SynthesizeCall (request_of [104, 105] ''en-US-Wavenet-D'' ''en-US''),
         OpenWrite ''out.mp3'', WriteBytes ''out.mp3'' [0x49, 0x44, 0x33]]"
    by (rule run) (intro conjI sample_read sample_text a b c d e)
  then show ?thesis
    by simp
qed

text \<open>
  The claim as first stated asks for nothing but a valid input and an accepted pair.
  With both, and the payload returned, an output path that cannot be opened ends the run
  with status 1 and the older file untouched; and a console that cannot encode the
  progress lines ends the run before the service is asked, again with the older file
  untouched.
\<close>

theorem output_path_closed_or_console_mute:
  "files sample_world ''in.txt'' = Some [0x68, 0x69]
   \<and> read_text sample_env ''in.txt'' [0x68, 0x69] = Inr [104, 105]
   \<and> remote_synthesize sample_env (request_of [104, 105] ''en-US-Wavenet-D'' ''en-US'')
       = Inr [0x49, 0x44, 0x33]
   \<and> fst (text_to_speech (sample_env\<lparr>open_write_fault := (\<lambda>path. Some ''Permission denied'')\<rparr>)
        ''in.txt'' ''out.mp3'' ''en-US-Wavenet-D'' ''en-US'' sample_world) = SysExit 1
   \<and> files (snd (text_to_speech
        (sample_env\<lparr>open_write_fault := (\<lambda>path. Some ''Permission denied'')\<rparr>)
        ''in.txt'' ''out.mp3'' ''en-US-Wavenet-D'' ''en-US'' sample_world)) ''out.mp3''
       = Some [0x01, 0x02]
   \<and> fst (text_to_speech (sample_env\<lparr>encode_fault := (\<lambda>line. Some ''cannot encode'')\<rparr>)
        ''in.txt'' ''out.mp3'' ''en-US-Wavenet-D'' ''en-US'' sample_world)
       = Uncaught ''cannot encode''
   \<and> files (snd (text_to_speech (sample_env\<lparr>encode_fault := (\<lambda>line. Some ''cannot encode'')\<rparr>)
        ''in.txt'' ''out.mp3'' ''en-US-Wavenet-D'' ''en-US'' sample_world)) ''out.mp3''
       = Some [0x01, 0x02]"
proof -
  have old: "files sample_world ''out.mp3'' = Some [0x01, 0x02]"
    by (simp add: sample_world_def)
  have b: "remote_synthesize sample_env (request_of [104, 105] ''en-US-Wavenet-D'' ''en-US'')
              = Inr [0x49, 0x44, 0x33]"
    by (simp add: sample_env_def)
  have shut: "text_to_speech (sample_env\<lparr>open_write_fault := (\<lambda>path. Some ''Permission denied'')\<rparr>)
        ''in.txt'' ''out.mp3'' ''en-US-Wavenet-D'' ''en-US'' sample_world =
      fail_with (sample_env\<lparr>open_write_fault := (\<lambda>path. Some ''Permission denied'')\<rparr>)
        (err_mark @ '' Error writing output file: '' @ ''Permission denied'')
        (perform (OpenWrite ''out.mp3'')
          (emit (ok_mark @ '' Speech synthesis complete'')
           (perform (SynthesizeCall (request_of [104, 105] ''en-US-Wavenet-D'' ''en-US''))
              (before_synthesis ''en-US-Wavenet-D'' ''en-US''
                (after_read ''in.txt'' [104, 105] sample_world)))))"
  proof -
    have "read_text (sample_env\<lparr>open_write_fault := (\<lambda>path. Some ''Permission denied'')\<rparr>) ''in.txt'' [0x68, 0x69] = Inr [104, 105]"
      and "encode_fault (sample_env\<lparr>open_write_fault := (\<lambda>path. Some ''Permission denied'')\<rparr>) (read_line ''in.txt'' [104, 105]) = None"
      and "client_fault (sample_env\<lparr>open_write_fault := (\<lambda>path. Some ''Permission denied'')\<rparr>) = None"
      and "\<forall>s\<in>set (request_lines ''en-US-Wavenet-D'' ''en-US''). encode_fault (sample_env\<lparr>open_write_fault := (\<lambda>path. Some ''Permission denied'')\<rparr>) s = None"
      and "remote_synthesize (sample_env\<lparr>open_write_fault := (\<lambda>path. Some ''Permission denied'')\<rparr>) (request_of [104, 105] ''en-US-Wavenet-D'' ''en-US'')
             = Inr [0x49, 0x44, 0x33]"
      and "encode_fault (sample_env\<lparr>open_write_fault := (\<lambda>path. Some ''Permission denied'')\<rparr>) (ok_mark @ '' Speech synthesis complete'') = None"
      and "open_write_fault (sample_env\<lparr>open_write_fault := (\<lambda>path. Some ''Permission denied'')\<rparr>) ''out.mp3'' = Some ''Permission denied''"
      by (simp_all add: sample_env_def)
    then show ?thesis
      by (simp add: tts_synthesized [OF sample_read] write_binary_closed)
  qed
  have mute: "text_to_speech (sample_env\<lparr>encode_fault := (\<lambda>line. Some ''cannot encode'')\<rparr>)
        ''in.txt'' ''out.mp3'' ''en-US-Wavenet-D'' ''en-US'' sample_world =
      fail_with (sample_env\<lparr>encode_fault := (\<lambda>line. Some ''cannot encode'')\<rparr>)
        (err_mark @ '' Error reading input file: '' @ ''cannot encode'')
        (perform (OpenRead ''in.txt'') sample_world)"
  proof -
    have "read_text (sample_env\<lparr>encode_fault := (\<lambda>line. Some ''cannot encode'')\<rparr>) ''in.txt'' [0x68, 0x69] = Inr [104, 105]"
      and "encode_fault (sample_env\<lparr>encode_fault := (\<lambda>line. Some ''cannot encode'')\<rparr>) (read_line ''in.txt'' [104, 105]) = Some ''cannot encode''"
      by (simp_all add: sample_env_def)
    then show ?thesis
      by (simp add: tts_unreported [OF sample_read])
  qed
  have quiet: "encode_fault (sample_env\<lparr>open_write_fault := (\<lambda>path. Some ''Permission denied'')\<rparr>)
      (err_mark @ '' Error writing output file: '' @ ''Permission denied'') = None"
    by (simp add: sample_env_def)
  have loud: "encode_fault (sample_env\<lparr>encode_fault := (\<lambda>line. Some ''cannot encode'')\<rparr>)
      (err_mark @ '' Error reading input file: '' @ ''cannot encode'') = Some ''cannot encode''"
    by simp
  have left: "fst (text_to_speech
        (sample_env\<lparr>open_write_fault := (\<lambda>path. Some ''Permission denied'')\<rparr>)
        ''in.txt'' ''out.mp3'' ''en-US-Wavenet-D'' ''en-US'' sample_world) = SysExit 1"
    unfolding shut fail_with_accepted [OF quiet] by simp
  have escaped: "fst (text_to_speech
        (sample_env\<lparr>encode_fault := (\<lambda>line. Some ''cannot encode'')\<rparr>)
        ''in.txt'' ''out.mp3'' ''en-US-Wavenet-D'' ''en-US'' sample_world)
       = Uncaught ''cannot encode''"
    unfolding mute fail_with_refused [OF loud] by simp
  have kept: "files (snd (text_to_speech
        (sample_env\<lparr>open_write_fault := (\<lambda>path. Some ''Permission denied'')\<rparr>)
        ''in.txt'' ''out.mp3'' ''en-US-Wavenet-D'' ''en-US'' sample_world)) ''out.mp3''
       = Some [0x01, 0x02]"
    and untouched: "files (snd (text_to_speech
        (sample_env\<lparr>encode_fault := (\<lambda>line. Some ''cannot encode'')\<rparr>)
        ''in.txt'' ''out.mp3'' ''en-US-Wavenet-D'' ''en-US'' sample_world)) ''out.mp3''
       = Some [0x01, 0x02]"
    unfolding shut mute by (simp_all add: old)
  from sample_read sample_text b left kept escaped untouched show ?thesis
    by (intro conjI)
qed

subsection \<open>A failure of the remote service ends the run\<close>

text \<open>
  Claim C2. A failure of the remote service ends the program with exit status 1 and
  nothing follows the failing call but the error message. When the client cannot be
  created, the listing flow sends no query and the synthesis flow sends no request;
  when the query fails nothing is listed; when the request fails the output file is
  neither opened nor written. In each of the four cases the files stay as they were
  and the calls end with the failing one, on every console; on a console that accepts
  the error line the run leaves through \<^verbatim>\<open>sys.exit(1)\<close> and the whole world after
  it is given. The lines that the synthesis flow prints before the failing call are
  assumed accepted, since otherwise that call is not reached.
\<close>

theorem remote_failure_ends_run:
  assumes "parse_args cl = Some args"
  shows "(\<forall>e. arg_list_voices args \<and> client_fault env = Some e \<longrightarrow>
            exit_status (fst (main env cl w)) = 1 \<and>
            files (snd (main env cl w)) = files w \<and>
            effects (snd (main env cl w)) = effects w @ [CreateClient] \<and>
            (encode_fault env (''Error creating client: '' @ e) = None \<longrightarrow>
             main env cl w =
              (SysExit 1,
               w\<lparr>stdout := stdout w @ [''Error creating client: '' @ e],
                 effects := effects w @ [CreateClient]\<rparr>)))
       \<and> (\<forall>e. arg_list_voices args \<and> client_fault env = None \<and>
              remote_list_voices env (arg_language args) = Inl e \<longrightarrow>
            exit_status (fst (main env cl w)) = 1 \<and>
            files (snd (main env cl w)) = files w \<and>
            effects (snd (main env cl w))
              = effects w @ [CreateClient, ListVoicesCall (arg_language args)] \<and>
            (encode_fault env (''Error listing voices: '' @ e) = None \<longrightarrow>
             main env cl w =
              (SysExit 1,
               w\<lparr>stdout := stdout w @ [''Error listing voices: '' @ e],
                 effects := effects w @ [CreateClient, ListVoicesCall (arg_language args)]\<rparr>)))
       \<and> (\<forall>inp out content txt e.
            \<not> arg_list_voices args \<and> arg_input_file args = Some inp \<and> inp \<noteq> [] \<and>
            arg_output_file args = Some out \<and> out \<noteq> [] \<and>
            files w inp = Some content \<and> read_text env inp content = Inr txt \<and>
            encode_fault env (read_line inp txt) = None \<and>
            client_fault env = Some e \<longrightarrow>
            exit_status (fst (main env cl w)) = 1 \<and>
            files (snd (main env cl w)) = files w \<and>
            effects (snd (main env cl w)) = effects w @ [OpenRead inp, CreateClient] \<and>
            (encode_fault env (err_mark @ '' Error creating client: '' @ e) = None \<longrightarrow>
             main env cl w =
              (SysExit 1,
               w\<lparr>stdout := stdout w @
                    [ok_mark @ '' Read '' @ str_nat (length txt) @ '' characters from '' @
                       quoted inp,
                     err_mark @ '' Error creating client: '' @ e],
                 effects := effects w @ [OpenRead inp, CreateClient]\<rparr>)))
       \<and> (\<forall>inp out content txt e.
            \<not> arg_list_voices args \<and> arg_input_file args = Some inp \<and> inp \<noteq> [] \<and>
            arg_output_file args = Some out \<and> out \<noteq> [] \<and>
            files w inp = Some content \<and> read_text env inp content = Inr txt \<and>
            encode_fault env (read_line inp txt) = None \<and>
            client_fault env = None \<and>
            (\<forall>s\<in>set (request_lines (arg_voice args) (arg_language args)).
               encode_fault env s = None) \<and>
            remote_synthesize env (request_of txt (arg_voice args) (arg_language args)) = Inl e
            \<longrightarrow>
            exit_status (fst (main env cl w)) = 1 \<and>
            files (snd (main env cl w)) = files w \<and>
            effects (snd (main env cl w)) = effects w @
              [OpenRead inp, CreateClient,
               SynthesizeCall (request_of txt (arg_voice args) (arg_language args))] \<and>
            (encode_fault env (err_mark @ '' Error during synthesis: '' @ e) = None \<longrightarrow>
             main env cl w =
              (SysExit 1,
               w\<lparr>stdout := stdout w @
                    [ok_mark @ '' Read '' @ str_nat (length txt) @ '' characters from '' @
                       quoted inp,
                     ok_mark @ '' Connected to Google Cloud Text-to-Speech API'',
                     ok_mark @ '' Using voice: '' @ arg_voice args @ '' ('' @
                       arg_language args @ '')'',
                     busy_mark @ '' Synthesizing speech...'',
                     err_mark @ '' Error during synthesis: '' @ e],
                 effects := effects w @
                    [OpenRead inp, CreateClient,
                     SynthesizeCall (request_of txt (arg_voice args) (arg_language args))]\<rparr>)))"
proof -
  have connect: "exit_status (fst (main env cl w)) = 1 \<and>
            files (snd (main env cl w)) = files w \<and>
            effects (snd (main env cl w)) = effects w @ [CreateClient] \<and>
            (encode_fault env (''Error creating client: '' @ e) = None \<longrightarrow>
             main env cl w =
              (SysExit 1,
               w\<lparr>stdout := stdout w @ [''Error creating client: '' @ e],
                 effects := effects w @ [CreateClient]\<rparr>))"
    if "arg_list_voices args" and "client_fault env = Some e" for e
  proof -
    from assms that have run: "main env cl w =
        fail_with env (''Error creating client: '' @ e) (perform CreateClient w)"
      by (simp add: main_lists list_voices_client_fault)
    show ?thesis
      unfolding run by (auto simp add: fail_with_accepted emit_def perform_def)
  qed
  have query: "exit_status (fst (main env cl w)) = 1 \<and>
            files (snd (main env cl w)) = files w \<and>
            effects (snd (main env cl w))
              = effects w @ [CreateClient, ListVoicesCall (arg_language args)] \<and>
            (encode_fault env (''Error listing voices: '' @ e) = None \<longrightarrow>
             main env cl w =
              (SysExit 1,
               w\<lparr>stdout := stdout w @ [''Error listing voices: '' @ e],
                 effects := effects w @ [CreateClient, ListVoicesCall (arg_language args)]\<rparr>))"
    if "arg_list_voices args" and "client_fault env = None"
      and "remote_list_voices env (arg_language args) = Inl e" for e
  proof -
    from assms that have run: "main env cl w =
        fail_with env (''Error listing voices: '' @ e)
          (perform (ListVoicesCall (arg_language args)) (perform CreateClient w))"
      by (simp add: main_lists list_voices_query_fault)
    show ?thesis
      unfolding run by (auto simp add: fail_with_accepted emit_def perform_def)
  qed
  have connect2: "exit_status (fst (main env cl w)) = 1 \<and>
            files (snd (main env cl w)) = files w \<and>
            effects (snd (main env cl w)) = effects w @ [OpenRead inp, CreateClient] \<and>
            (encode_fault env (err_mark @ '' Error creating client: '' @ e) = None \<longrightarrow>
             main env cl w =
              (SysExit 1,
               w\<lparr>stdout := stdout w @
                    [ok_mark @ '' Read '' @ str_nat (length tx) @ '' characters from '' @
                       quoted inp,
                     err_mark @ '' Error creating client: '' @ e],
                 effects := effects w @ [OpenRead inp, CreateClient]\<rparr>))"
    if "\<not> arg_list_voices args" and "arg_input_file args = Some inp" and "inp \<noteq> []"
      and "arg_output_file args = Some out" and "out \<noteq> []"
      and "files w inp = Some content" and "read_text env inp content = Inr tx"
      and "encode_fault env (read_line inp tx) = None"
      and "client_fault env = Some e" for inp out content tx e
  proof -
    have run: "main env cl w =
        fail_with env (err_mark @ '' Error creating client: '' @ e)
          (perform CreateClient (after_read inp tx w))"
      by (simp add: main_synthesizes [OF assms that(1,2,4,3,5)]
          tts_client_fault [OF that(6,7,8,9)])
    show ?thesis
      unfolding run
      by (auto simp add: fail_with_accepted emit_def perform_def after_read_def read_line_def)
  qed
  have synth: "exit_status (fst (main env cl w)) = 1 \<and>
            files (snd (main env cl w)) = files w \<and>
            effects (snd (main env cl w)) = effects w @
              [OpenRead inp, CreateClient,
               SynthesizeCall (request_of tx (arg_voice args) (arg_language args))] \<and>
            (encode_fault env (err_mark @ '' Error during synthesis: '' @ e) = None \<longrightarrow>
             main env cl w =
              (SysExit 1,
               w\<lparr>stdout := stdout w @
                    [ok_mark @ '' Read '' @ str_nat (length tx) @ '' characters from '' @
                       quoted inp,
                     ok_mark @ '' Connected to Google Cloud Text-to-Speech API'',
                     ok_mark @ '' Using voice: '' @ arg_voice args @ '' ('' @
                       arg_language args @ '')'',
                     busy_mark @ '' Synthesizing speech...'',
                     err_mark @ '' Error during synthesis: '' @ e],
                 effects := effects w @
                    [OpenRead inp, CreateClient,
                     SynthesizeCall (request_of tx (arg_voice args) (arg_language args))]\<rparr>))"
    if "\<not> arg_list_voices args" and "arg_input_file args = Some inp" and "inp \<noteq> []"
      and "arg_output_file args = Some out" and "out \<noteq> []"
      and "files w inp = Some content" and "read_text env inp content = Inr tx"
      and "encode_fault env (read_line inp tx) = None"
      and "client_fault env = None"
      and "\<forall>s\<in>set (request_lines (arg_voice args) (arg_language args)).
             encode_fault env s = None"
      and "remote_synthesize env (request_of tx (arg_voice args) (arg_language args)) = Inl e"
    for inp out content tx e
  proof -
    have run: "main env cl w =
        fail_with env (err_mark @ '' Error during synthesis: '' @ e)
          (perform (SynthesizeCall (request_of tx (arg_voice args) (arg_language args)))
            (before_synthesis (arg_voice args) (arg_language args) (after_read inp tx w)))"
      by (simp add: main_synthesizes [OF assms that(1,2,4,3,5)]
          tts_synthesis_fault [OF that(6,7,8,9,10,11)])
    show ?thesis
      unfolding run
      by (auto simp add: fail_with_accepted emit_def perform_def after_read_def read_line_def
          before_synthesis_def)
  qed
  from connect query connect2 synth show ?thesis
    by blast
qed

text \<open>
  The four failures on the sample disk.
\<close>

theorem remote_failure_ends_run_witness:
  "main (sample_env\<lparr>client_fault := Some ''no credentials''\<rparr>) listing_cl sample_world =
     (SysExit 1,
      sample_world\<lparr>stdout := [''Error creating client: no credentials''],
        effects := [CreateClient]\<rparr>)
   \<and> main (sample_env\<lparr>remote_list_voices := (\<lambda>l. Inl ''unavailable'')\<rparr>) listing_cl sample_world =
     (SysExit 1,
      sample_world\<lparr>stdout := [''Error listing voices: unavailable''],
        effects := [CreateClient, ListVoicesCall ''en-US'']\<rparr>)
   \<and> exit_status (fst (main (sample_env\<lparr>client_fault := Some ''no credentials''\<rparr>) synthesis_cl sample_world)) = 1
   \<and> effects (snd (main (sample_env\<lparr>client_fault := Some ''no credentials''\<rparr>) synthesis_cl sample_world)) = [OpenRead ''in.txt'', CreateClient]
   \<and> files (snd (main (sample_env\<lparr>client_fault := Some ''no credentials''\<rparr>) synthesis_cl sample_world)) = files sample_world
   \<and> exit_status (fst (main (sample_env\<lparr>remote_synthesize := (\<lambda>r. Inl ''no such voice'')\<rparr>) synthesis_cl sample_world)) = 1
   \<and> effects (snd (main (sample_env\<lparr>remote_synthesize := (\<lambda>r. Inl ''no such voice'')\<rparr>) synthesis_cl sample_world)) =
       [OpenRead ''in.txt'', CreateClient,
        SynthesizeCall (request_of [104, 105] ''en-US-Wavenet-D'' ''en-US'')]
   \<and> files (snd (main (sample_env\<lparr>remote_synthesize := (\<lambda>r. Inl ''no such voice'')\<rparr>) synthesis_cl sample_world)) = files sample_world"
proof -
  note listing = remote_failure_ends_run [OF parse_listing_cl]
  note synthesis = remote_failure_ends_run [OF parse_synthesis_cl]
  have "exit_status (fst (main (sample_env\<lparr>client_fault := Some ''no credentials''\<rparr>) listing_cl sample_world)) = 1 \<and>
      files (snd (main (sample_env\<lparr>client_fault := Some ''no credentials''\<rparr>) listing_cl sample_world)) = files sample_world \<and>
      effects (snd (main (sample_env\<lparr>client_fault := Some ''no credentials''\<rparr>) listing_cl sample_world)) = effects sample_world @ [CreateClient] \<and>
      (encode_fault (sample_env\<lparr>client_fault := Some ''no credentials''\<rparr>) (''Error creating client: '' @ ''no credentials'') = None \<longrightarrow>
       main (sample_env\<lparr>client_fault := Some ''no credentials''\<rparr>) listing_cl sample_world =
         (SysExit 1,
          sample_world\<lparr>stdout := stdout sample_world @
              [''Error creating client: '' @ ''no credentials''],
            effects := effects sample_world @ [CreateClient]\<rparr>))"
    by (rule listing [THEN conjunct1, THEN spec [of _ "''no credentials''"], THEN mp]) simp
  then have connect: "main (sample_env\<lparr>client_fault := Some ''no credentials''\<rparr>) listing_cl sample_world =
     (SysExit 1,
      sample_world\<lparr>stdout := [''Error creating client: no credentials''],
        effects := [CreateClient]\<rparr>)"
    by (simp add: sample_env_def sample_blank)
  have "exit_status (fst (main (sample_env\<lparr>remote_list_voices := (\<lambda>l. Inl ''unavailable'')\<rparr>) listing_cl sample_world)) = 1 \<and>
      files (snd (main (sample_env\<lparr>remote_list_voices := (\<lambda>l. Inl ''unavailable'')\<rparr>) listing_cl sample_world)) = files sample_world \<and>
      effects (snd (main (sample_env\<lparr>remote_list_voices := (\<lambda>l. Inl ''unavailable'')\<rparr>) listing_cl sample_world))
        = effects sample_world @ [CreateClient, ListVoicesCall (arg_language
            \<lparr>arg_input_file = None, arg_output_file = None, arg_list_voices = True,
               arg_voice = ''en-US-Wavenet-D'', arg_language = ''en-US''\<rparr>)] \<and>
      (encode_fault (sample_env\<lparr>remote_list_voices := (\<lambda>l. Inl ''unavailable'')\<rparr>) (''Error listing voices: '' @ ''unavailable'') = None \<longrightarrow>
       main (sample_env\<lparr>remote_list_voices := (\<lambda>l. Inl ''unavailable'')\<rparr>) listing_cl sample_world =
         (SysExit 1,
          sample_world\<lparr>stdout := stdout sample_world @
              [''Error listing voices: '' @ ''unavailable''],
            effects := effects sample_world @ [CreateClient, ListVoicesCall (arg_language
              \<lparr>arg_input_file = None, arg_output_file = None, arg_list_voices = True,
                 arg_voice = ''en-US-Wavenet-D'', arg_language = ''en-US''\<rparr>)]\<rparr>))"
    by (rule listing [THEN conjunct2, THEN conjunct1, THEN spec [of _ "''unavailable''"],
          THEN mp])
      (simp add: sample_env_def)
  then have query: "main (sample_env\<lparr>remote_list_voices := (\<lambda>l. Inl ''unavailable'')\<rparr>) listing_cl sample_world =
     (SysExit 1,
      sample_world\<lparr>stdout := [''Error listing voices: unavailable''],
        effects := [CreateClient, ListVoicesCall ''en-US'']\<rparr>)"
    by (simp add: sample_env_def sample_blank)
  have "exit_status (fst (main (sample_env\<lparr>client_fault := Some ''no credentials''\<rparr>) synthesis_cl sample_world)) = 1 \<and>
      files (snd (main (sample_env\<lparr>client_fault := Some ''no credentials''\<rparr>) synthesis_cl sample_world)) = files sample_world \<and>
      effects (snd (main (sample_env\<lparr>client_fault := Some ''no credentials''\<rparr>) synthesis_cl sample_world))
        = effects sample_world @ [OpenRead ''in.txt'', CreateClient] \<and>
      (encode_fault (sample_env\<lparr>client_fault := Some ''no credentials''\<rparr>) (err_mark @ '' Error creating client: '' @ ''no credentials'') = None
       \<longrightarrow>
       main (sample_env\<lparr>client_fault := Some ''no credentials''\<rparr>) synthesis_cl sample_world =
         (SysExit 1,
          sample_world\<lparr>stdout := stdout sample_world @
              [ok_mark @ '' Read '' @ str_nat (length [104::nat, 105]) @
                 '' characters from '' @ quoted ''in.txt'',
               err_mark @ '' Error creating client: '' @ ''no credentials''],
            effects := effects sample_world @ [OpenRead ''in.txt'', CreateClient]\<rparr>))"
    by (rule synthesis [THEN conjunct2, THEN conjunct2, THEN conjunct1,
          THEN spec [of _ "''in.txt''"], THEN spec [of _ "''out.mp3''"],
          THEN spec [of _ "[0x68, 0x69]"], THEN spec [of _ "[104, 105]"],
          THEN spec [of _ "''no credentials''"], THEN mp])
      (simp add: sample_env_def sample_read)
  then have connect2: "exit_status (fst (main (sample_env\<lparr>client_fault := Some ''no credentials''\<rparr>) synthesis_cl sample_world)) = 1"
    "effects (snd (main (sample_env\<lparr>client_fault := Some ''no credentials''\<rparr>) synthesis_cl sample_world)) = [OpenRead ''in.txt'', CreateClient]"
    "files (snd (main (sample_env\<lparr>client_fault := Some ''no credentials''\<rparr>) synthesis_cl sample_world)) = files sample_world"
    by (simp_all add: sample_blank)
  have "exit_status (fst (main (sample_env\<lparr>remote_synthesize := (\<lambda>r. Inl ''no such voice'')\<rparr>) synthesis_cl sample_world)) = 1 \<and>
      files (snd (main (sample_env\<lparr>remote_synthesize := (\<lambda>r. Inl ''no such voice'')\<rparr>) synthesis_cl sample_world)) = files sample_world \<and>
      effects (snd (main (sample_env\<lparr>remote_synthesize := (\<lambda>r. Inl ''no such voice'')\<rparr>) synthesis_cl sample_world))
        = effects sample_world @ [OpenRead ''in.txt'', CreateClient,
            SynthesizeCall (request_of [104, 105]
              (arg_voice \<lparr>arg_input_file = Some ''in.txt'', arg_output_file = Some ''out.mp3'',
                 arg_list_voices = False, arg_voice = ''en-US-Wavenet-D'',
                 arg_language = ''en-US''\<rparr>)
              (arg_language \<lparr>arg_input_file = Some ''in.txt'',
                 arg_output_file = Some ''out.mp3'', arg_list_voices = False,
                 arg_voice = ''en-US-Wavenet-D'', arg_language = ''en-US''\<rparr>))] \<and>
      (encode_fault (sample_env\<lparr>remote_synthesize := (\<lambda>r. Inl ''no such voice'')\<rparr>) (err_mark @ '' Error during synthesis: '' @ ''no such voice'') = None
       \<longrightarrow>
       main (sample_env\<lparr>remote_synthesize := (\<lambda>r. Inl ''no such voice'')\<rparr>) synthesis_cl sample_world =
         (SysExit 1,
          sample_world\<lparr>stdout := stdout sample_world @
              [ok_mark @ '' Read '' @ str_nat (length [104::nat, 105]) @
                 '' characters from '' @ quoted ''in.txt'',
               ok_mark @ '' Connected to Google Cloud Text-to-Speech API'',
               ok_mark @ '' Using voice: '' @
                 arg_voice \<lparr>arg_input_file = Some ''in.txt'',
                   arg_output_file = Some ''out.mp3'', arg_list_voices = False,
                   arg_voice = ''en-US-Wavenet-D'', arg_language = ''en-US''\<rparr> @ '' ('' @
                 arg_language \<lparr>arg_input_file = Some ''in.txt'',
                   arg_output_file = Some ''out.mp3'', arg_list_voices = False,
                   arg_voice = ''en-US-Wavenet-D'', arg_language = ''en-US''\<rparr> @ '')'',
               busy_mark @ '' Synthesizing speech...'',
               err_mark @ '' Error during synthesis: '' @ ''no such voice''],
            effects := effects sample_world @ [OpenRead ''in.txt'', CreateClient,
              SynthesizeCall (request_of [104, 105]
                (arg_voice \<lparr>arg_input_file = Some ''in.txt'',
                   arg_output_file = Some ''out.mp3'', arg_list_voices = False,
                   arg_voice = ''en-US-Wavenet-D'', arg_language = ''en-US''\<rparr>)
                (arg_language \<lparr>arg_input_file = Some ''in.txt'',
                   arg_output_file = Some ''out.mp3'', arg_list_voices = False,
                   arg_voice = ''en-US-Wavenet-D'', arg_language = ''en-US''\<rparr>))]\<rparr>))"
    by (rule synthesis [THEN conjunct2, THEN conjunct2, THEN conjunct2,
          THEN spec [of _ "''in.txt''"], THEN spec [of _ "''out.mp3''"],
          THEN spec [of _ "[0x68, 0x69]"], THEN spec [of _ "[104, 105]"],
          THEN spec [of _ "''no such voice''"], THEN mp])
      (simp add: sample_env_def sample_read)
  then have synth: "exit_status (fst (main (sample_env\<lparr>remote_synthesize := (\<lambda>r. Inl ''no such voice'')\<rparr>) synthesis_cl sample_world)) = 1"
    "effects (snd (main (sample_env\<lparr>remote_synthesize := (\<lambda>r. Inl ''no such voice'')\<rparr>) synthesis_cl sample_world)) =
       [OpenRead ''in.txt'', CreateClient,
        SynthesizeCall (request_of [104, 105] ''en-US-Wavenet-D'' ''en-US'')]"
    "files (snd (main (sample_env\<lparr>remote_synthesize := (\<lambda>r. Inl ''no such voice'')\<rparr>) synthesis_cl sample_world)) = files sample_world"
    by (simp_all add: sample_blank)
  from connect query connect2 synth show ?thesis
    by (intro conjI)
qed

subsection \<open>The dispatch on the parsed arguments\<close>

text \<open>
  Claim C3, amended. For every parsed argument set: with the list-voices flag the
  program runs the listing flow for the language and the positional arguments change
  nothing; otherwise, when a positional argument is missing or is the empty string,
  it prints the usage text and leaves with status 1; otherwise it runs the synthesis
  flow on both paths, the voice and the language. The last two conjuncts say that the
  three conditions cover every argument set and that the usage case and the synthesis
  case exclude each other (both are stated for an unset flag), so exactly one behaviour
  is selected.
\<close>

theorem dispatch_by_arguments:
  assumes "parse_args cl = Some args"
  shows "(arg_list_voices args \<longrightarrow>
            main env cl w = list_voices env (arg_language args) w \<and>
            (\<forall>ps args'. parse_args (cl\<lparr>cl_positionals := ps\<rparr>) = Some args' \<longrightarrow>
               main env (cl\<lparr>cl_positionals := ps\<rparr>) w = main env cl w))
       \<and> (\<not> arg_list_voices args \<and>
            (arg_input_file args = None \<or> arg_input_file args = Some [] \<or>
             arg_output_file args = None \<or> arg_output_file args = Some []) \<longrightarrow>
            main env cl w = (SysExit 1, w\<lparr>stdout := stdout w @ [format_help env]\<rparr>))
       \<and> (\<forall>inp out. \<not> arg_list_voices args \<and>
            arg_input_file args = Some inp \<and> inp \<noteq> [] \<and>
            arg_output_file args = Some out \<and> out \<noteq> [] \<longrightarrow>
            main env cl w = text_to_speech env inp out (arg_voice args) (arg_language args) w)
       \<and> (arg_list_voices args \<or>
            (arg_input_file args = None \<or> arg_input_file args = Some [] \<or>
             arg_output_file args = None \<or> arg_output_file args = Some []) \<or>
            (\<exists>inp out. arg_input_file args = Some inp \<and> inp \<noteq> [] \<and>
               arg_output_file args = Some out \<and> out \<noteq> []))
       \<and> \<not> ((arg_input_file args = None \<or> arg_input_file args = Some [] \<or>
              arg_output_file args = None \<or> arg_output_file args = Some []) \<and>
             (\<exists>inp out. arg_input_file args = Some inp \<and> inp \<noteq> [] \<and>
               arg_output_file args = Some out \<and> out \<noteq> []))"
proof -
  have lists: "main env (cl\<lparr>cl_positionals := ps\<rparr>) w = main env cl w"
    if "arg_list_voices args" and "parse_args (cl\<lparr>cl_positionals := ps\<rparr>) = Some args'"
    for ps args'
  proof -
    from that(2) have "arg_list_voices args' = cl_list_voices cl"
      and "arg_language args' = (case cl_language cl of None \<Rightarrow> ''en-US'' | Some l \<Rightarrow> l)"
      by (simp_all add: parse_args_flag parse_args_language)
    with assms that(1) have "arg_list_voices args'" and "arg_language args' = arg_language args"
      by (simp_all add: parse_args_flag parse_args_language)
    with assms that show ?thesis
      by (simp add: main_lists)
  qed
  have usage: "main env cl w = (SysExit 1, w\<lparr>stdout := stdout w @ [format_help env]\<rparr>)"
    if "\<not> arg_list_voices args"
      and "arg_input_file args = None \<or> arg_input_file args = Some [] \<or>
           arg_output_file args = None \<or> arg_output_file args = Some []"
  proof -
    from that(2) have "py_not (arg_input_file args) \<or> py_not (arg_output_file args)"
      by (auto simp add: py_not_iff)
    from main_help [OF assms that(1) this] show ?thesis
      by (simp add: print_help_def)
  qed
  have cover: "arg_list_voices args \<or>
            (arg_input_file args = None \<or> arg_input_file args = Some [] \<or>
             arg_output_file args = None \<or> arg_output_file args = Some []) \<or>
            (\<exists>inp out. arg_input_file args = Some inp \<and> inp \<noteq> [] \<and>
               arg_output_file args = Some out \<and> out \<noteq> [])"
    by (cases "arg_input_file args"; cases "arg_output_file args") auto
  have apart: "\<not> ((arg_input_file args = None \<or> arg_input_file args = Some [] \<or>
              arg_output_file args = None \<or> arg_output_file args = Some []) \<and>
             (\<exists>inp out. arg_input_file args = Some inp \<and> inp \<noteq> [] \<and>
               arg_output_file args = Some out \<and> out \<noteq> []))"
    by auto
  from assms lists usage have flows: "(arg_list_voices args \<longrightarrow>
            main env cl w = list_voices env (arg_language args) w \<and>
            (\<forall>ps args'. parse_args (cl\<lparr>cl_positionals := ps\<rparr>) = Some args' \<longrightarrow>
               main env (cl\<lparr>cl_positionals := ps\<rparr>) w = main env cl w))
       \<and> (\<not> arg_list_voices args \<and>
            (arg_input_file args = None \<or> arg_input_file args = Some [] \<or>
             arg_output_file args = None \<or> arg_output_file args = Some []) \<longrightarrow>
            main env cl w = (SysExit 1, w\<lparr>stdout := stdout w @ [format_help env]\<rparr>))
       \<and> (\<forall>inp out. \<not> arg_list_voices args \<and>
            arg_input_file args = Some inp \<and> inp \<noteq> [] \<and>
            arg_output_file args = Some out \<and> out \<noteq> [] \<longrightarrow>
            main env cl w = text_to_speech env inp out (arg_voice args) (arg_language args) w)"
    by (simp add: main_lists main_synthesizes)
  from flows cover apart show ?thesis
    by blast
qed

text \<open>
  One command line for each of the three behaviours.
\<close>

theorem dispatch_by_arguments_witness:
  "main sample_env listing_cl sample_world = list_voices sample_env ''en-US'' sample_world
   \<and> main sample_env (listing_cl\<lparr>cl_positionals := [''a'', ''b'']\<rparr>) sample_world
       = main sample_env listing_cl sample_world
   \<and> main sample_env empty_input_cl sample_world
       = (SysExit 1, sample_world\<lparr>stdout := [format_help sample_env]\<rparr>)
   \<and> main sample_env synthesis_cl sample_world
       = text_to_speech sample_env ''in.txt'' ''out.mp3'' ''en-US-Wavenet-D'' ''en-US'' sample_world"
proof -
  have p: "parse_args (listing_cl\<lparr>cl_positionals := [''a'', ''b'']\<rparr>) =
      Some \<lparr>arg_input_file = Some ''a'', arg_output_file = Some ''b'',
        arg_list_voices = True, arg_voice = ''en-US-Wavenet-D'', arg_language = ''en-US''\<rparr>"
    by (simp add: parse_args_def listing_cl_def)
  have none: "stdout sample_world = []"
    by (simp add: sample_world_def)
  from dispatch_by_arguments [OF parse_listing_cl, of sample_env sample_world] p
  have "main sample_env listing_cl sample_world = list_voices sample_env ''en-US'' sample_world"
    and "main sample_env (listing_cl\<lparr>cl_positionals := [''a'', ''b'']\<rparr>) sample_world
       = main sample_env listing_cl sample_world"
    by simp_all
  moreover from dispatch_by_arguments [OF parse_empty_input_cl, of sample_env sample_world]
  have "main sample_env empty_input_cl sample_world
       = (SysExit 1, sample_world\<lparr>stdout := [format_help sample_env]\<rparr>)"
    by (simp add: none)
  moreover from dispatch_by_arguments [OF parse_synthesis_cl, of sample_env sample_world]
  have "main sample_env synthesis_cl sample_world
       = text_to_speech sample_env ''in.txt'' ''out.mp3'' ''en-US-Wavenet-D'' ''en-US'' sample_world"
    by simp
  ultimately show ?thesis
    by simp
qed

text \<open>
  The claim as first stated sends every argument set that has both positional
  arguments to the synthesis flow. An input path given as the empty string is not
  missing, yet the program prints the usage text and does not open any file, while the
  synthesis flow on the same paths would have tried to open the input.
\<close>

theorem empty_positional_not_synthesized:
  "parse_args empty_input_cl =
     Some \<lparr>arg_input_file = Some [], arg_output_file = Some ''out.mp3'',
       arg_list_voices = False, arg_voice = ''en-US-Wavenet-D'', arg_language = ''en-US''\<rparr>
   \<and> main sample_env empty_input_cl sample_world
       = (SysExit 1, sample_world\<lparr>stdout := [format_help sample_env]\<rparr>)
   \<and> main sample_env empty_input_cl sample_world
       \<noteq> text_to_speech sample_env [] ''out.mp3'' ''en-US-Wavenet-D'' ''en-US'' sample_world"
proof -
  have none: "stdout sample_world = []"
    by (simp add: sample_world_def)
  have usage: "main sample_env empty_input_cl sample_world
       = (SysExit 1, sample_world\<lparr>stdout := [format_help sample_env]\<rparr>)"
    using main_help [OF parse_empty_input_cl, of sample_env sample_world]
    by (simp add: py_not_def print_help_def none)
  have quiet: "effects sample_world = []"
    by (simp add: sample_world_def)
  have "files sample_world [] = None" and "path_fault sample_env [] = None"
    by (simp_all add: sample_world_def sample_env_def)
  then have flow: "effects (snd (text_to_speech sample_env [] ''out.mp3'' ''en-US-Wavenet-D''
      ''en-US'' sample_world)) = [OpenRead []]"
    by (simp add: tts_missing quiet)
  have shown: "effects (snd (main sample_env empty_input_cl sample_world)) = []"
    by (simp add: usage quiet)
  have "main sample_env empty_input_cl sample_world
       \<noteq> text_to_speech sample_env [] ''out.mp3'' ''en-US-Wavenet-D'' ''en-US'' sample_world"
  proof
    assume "main sample_env empty_input_cl sample_world
       = text_to_speech sample_env [] ''out.mp3'' ''en-US-Wavenet-D'' ''en-US'' sample_world"
    then have "effects (snd (main sample_env empty_input_cl sample_world))
       = effects (snd (text_to_speech sample_env [] ''out.mp3'' ''en-US-Wavenet-D'' ''en-US''
           sample_world))"
      by (rule arg_cong)
    with flow shown show False
      by simp
  qed
  with usage parse_empty_input_cl show ?thesis
    by simp
qed

subsection \<open>An input file that cannot be read\<close>

text \<open>
  Claim C4, amended. When the input path names no file and the open fails with
  \<^verbatim>\<open>FileNotFoundError\<close>, \<open>text_to_speech\<close> reports that the input file was not
  found. Every other failure of the read is reported as an error reading the input
  file, with the message of the failure: a path that names no file but is refused for
  another reason (a component that is not a directory, a name too long), a file that
  cannot be read or decoded, and a line reporting the read that the console cannot
  encode. In all these cases the exit status is 1, the only call made is the read, no
  output file is opened or written and the files stay as they were; the report itself
  reaches the console when the console can encode it, and the run then leaves through
  \<^verbatim>\<open>sys.exit(1)\<close>.
\<close>

theorem unreadable_input_ends_run:
  "(files w input_file = None \<and> path_fault env input_file = None \<longrightarrow>
      exit_status (fst (text_to_speech env input_file output_file voice_name language_code w)) = 1 \<and>
      files (snd (text_to_speech env input_file output_file voice_name language_code w)) = files w \<and>
      effects (snd (text_to_speech env input_file output_file voice_name language_code w)) = effects w @ [OpenRead input_file] \<and>
      (encode_fault env
         (err_mark @ '' Error: Input file '' @ quoted input_file @ '' not found.'') = None \<longrightarrow>
       text_to_speech env input_file output_file voice_name language_code w =
        (SysExit 1,
         w\<lparr>stdout := stdout w @
              [err_mark @ '' Error: Input file '' @ quoted input_file @ '' not found.''],
           effects := effects w @ [OpenRead input_file]\<rparr>)))
   \<and> (\<forall>e.
        (files w input_file = None \<and> path_fault env input_file = Some e) \<or>
        (\<exists>content. files w input_file = Some content \<and>
           read_text env input_file content = Inl e) \<or>
        (\<exists>content txt. files w input_file = Some content \<and>
           read_text env input_file content = Inr txt \<and>
           encode_fault env (read_line input_file txt) = Some e) \<longrightarrow>
        exit_status (fst (text_to_speech env input_file output_file voice_name language_code w)) = 1 \<and>
        files (snd (text_to_speech env input_file output_file voice_name language_code w)) = files w \<and>
        effects (snd (text_to_speech env input_file output_file voice_name language_code w)) = effects w @ [OpenRead input_file] \<and>
        (encode_fault env (err_mark @ '' Error reading input file: '' @ e) = None \<longrightarrow>
         text_to_speech env input_file output_file voice_name language_code w =
          (SysExit 1,
           w\<lparr>stdout := stdout w @ [err_mark @ '' Error reading input file: '' @ e],
             effects := effects w @ [OpenRead input_file]\<rparr>)))"
  (is "(?absent \<longrightarrow> ?not_found) \<and> (\<forall>e. ?failed e \<longrightarrow> ?reported e)")
proof -
  have "?not_found" if "files w input_file = None" and "path_fault env input_file = None"
    unfolding tts_missing [OF that]
    by (auto simp add: fail_with_accepted emit_def perform_def)
  then have first: "?absent \<longrightarrow> ?not_found"
    by simp
  have second: "?reported e" if "?failed e" for e
  proof -
    from that have run: "text_to_speech env input_file output_file voice_name language_code w =
        fail_with env (err_mark @ '' Error reading input file: '' @ e)
          (perform (OpenRead input_file) w)"
      by (auto simp add: tts_refused tts_unreadable tts_unreported)
    show ?thesis
      unfolding run by (auto simp add: fail_with_accepted emit_def perform_def)
  qed
  have "\<forall>e. ?failed e \<longrightarrow> ?reported e"
  proof (intro allI impI)
    fix e
    assume "?failed e"
    then show "?reported e"
      by (rule second)
  qed
  with first show ?thesis
    by (rule conjI)
qed

text \<open>
  A path that is not on the sample disk, and an input file that may not be read.
\<close>

theorem unreadable_input_ends_run_witness:
  "text_to_speech sample_env ''missing.txt'' ''out.mp3'' ''en-US-Wavenet-D'' ''en-US'' sample_world =
     (SysExit 1,
      sample_world\<lparr>stdout :=
          [err_mark @ '' Error: Input file '' @ quoted ''missing.txt'' @ '' not found.''],
        effects := [OpenRead ''missing.txt'']\<rparr>)
   \<and> text_to_speech (sample_env\<lparr>read_text := (\<lambda>path content. Inl ''permission denied'')\<rparr>) ''in.txt'' ''out.mp3'' ''en-US-Wavenet-D'' ''en-US'' sample_world =
     (SysExit 1,
      sample_world\<lparr>stdout := [err_mark @ '' Error reading input file: permission denied''],
        effects := [OpenRead ''in.txt'']\<rparr>)"
proof -
  have "exit_status (fst (text_to_speech sample_env ''missing.txt'' ''out.mp3''
          ''en-US-Wavenet-D'' ''en-US'' sample_world)) = 1 \<and>
      files (snd (text_to_speech sample_env ''missing.txt'' ''out.mp3''
          ''en-US-Wavenet-D'' ''en-US'' sample_world)) = files sample_world \<and>
      effects (snd (text_to_speech sample_env ''missing.txt'' ''out.mp3''
          ''en-US-Wavenet-D'' ''en-US'' sample_world))
        = effects sample_world @ [OpenRead ''missing.txt''] \<and>
      (encode_fault sample_env
         (err_mark @ '' Error: Input file '' @ quoted ''missing.txt'' @ '' not found.'') = None
       \<longrightarrow>
       text_to_speech sample_env ''missing.txt'' ''out.mp3'' ''en-US-Wavenet-D'' ''en-US''
         sample_world =
        (SysExit 1,
         sample_world\<lparr>stdout := stdout sample_world @
              [err_mark @ '' Error: Input file '' @ quoted ''missing.txt'' @ '' not found.''],
           effects := effects sample_world @ [OpenRead ''missing.txt'']\<rparr>))"
    by (rule unreadable_input_ends_run [THEN conjunct1, THEN mp])
      (simp add: sample_world_def sample_env_def)
  then have missing: "text_to_speech sample_env ''missing.txt'' ''out.mp3'' ''en-US-Wavenet-D''
      ''en-US'' sample_world =
     (SysExit 1,
      sample_world\<lparr>stdout :=
          [err_mark @ '' Error: Input file '' @ quoted ''missing.txt'' @ '' not found.''],
        effects := [OpenRead ''missing.txt'']\<rparr>)"
    by (simp add: sample_console sample_blank)
  have "exit_status (fst (text_to_speech (sample_env\<lparr>read_text := (\<lambda>path content. Inl ''permission denied'')\<rparr>) ''in.txt'' ''out.mp3''
          ''en-US-Wavenet-D'' ''en-US'' sample_world)) = 1 \<and>
      files (snd (text_to_speech (sample_env\<lparr>read_text := (\<lambda>path content. Inl ''permission denied'')\<rparr>) ''in.txt'' ''out.mp3''
          ''en-US-Wavenet-D'' ''en-US'' sample_world)) = files sample_world \<and>
      effects (snd (text_to_speech (sample_env\<lparr>read_text := (\<lambda>path content. Inl ''permission denied'')\<rparr>) ''in.txt'' ''out.mp3''
          ''en-US-Wavenet-D'' ''en-US'' sample_world))
        = effects sample_world @ [OpenRead ''in.txt''] \<and>
      (encode_fault (sample_env\<lparr>read_text := (\<lambda>path content. Inl ''permission denied'')\<rparr>) (err_mark @ '' Error reading input file: '' @ ''permission denied'')
         = None \<longrightarrow>
       text_to_speech (sample_env\<lparr>read_text := (\<lambda>path content. Inl ''permission denied'')\<rparr>) ''in.txt'' ''out.mp3'' ''en-US-Wavenet-D'' ''en-US'' sample_world =
        (SysExit 1,
         sample_world\<lparr>stdout := stdout sample_world @
              [err_mark @ '' Error reading input file: '' @ ''permission denied''],
           effects := effects sample_world @ [OpenRead ''in.txt'']\<rparr>))"
    by (rule unreadable_input_ends_run [THEN conjunct2, THEN spec [of _ "''permission denied''"],
          THEN mp])
      (simp add: sample_read)
  then have denied: "text_to_speech (sample_env\<lparr>read_text := (\<lambda>path content. Inl ''permission denied'')\<rparr>) ''in.txt'' ''out.mp3'' ''en-US-Wavenet-D'' ''en-US''
      sample_world =
     (SysExit 1,
      sample_world\<lparr>stdout := [err_mark @ '' Error reading input file: permission denied''],
        effects := [OpenRead ''in.txt'']\<rparr>)"
    by (simp add: sample_env_def sample_blank)
  from missing denied show ?thesis
    by (rule conjI)
qed

text \<open>
  The claim as first stated promises the "not found" report for every path that
  names no file. The path \<^verbatim>\<open>in.txt/x\<close> names no file on the sample disk, where
  \<^verbatim>\<open>in.txt\<close> is a file; the system refuses it as not a directory, and the flow
  reports an error reading the input file instead.
\<close>

theorem absent_path_refused:
  "files sample_world ''in.txt/x'' = None
   \<and> text_to_speech (sample_env\<lparr>path_fault := (\<lambda>path. Some (''[Errno 20] Not a directory: '' @ quoted path))\<rparr>) ''in.txt/x'' ''out.mp3'' ''en-US-Wavenet-D'' ''en-US'' sample_world =
     (SysExit 1,
      sample_world\<lparr>stdout :=
          [err_mark @ '' Error reading input file: [Errno 20] Not a directory: '' @
             quoted ''in.txt/x''],
        effects := [OpenRead ''in.txt/x'']\<rparr>)
   \<and> err_mark @ '' Error reading input file: [Errno 20] Not a directory: '' @ quoted ''in.txt/x''
       \<noteq> err_mark @ '' Error: Input file '' @ quoted ''in.txt/x'' @ '' not found.''"
proof -
  have absent: "files sample_world ''in.txt/x'' = None"
    by (simp add: sample_world_def)
  have refused: "path_fault (sample_env\<lparr>path_fault := (\<lambda>path. Some (''[Errno 20] Not a directory: '' @ quoted path))\<rparr>) ''in.txt/x''
      = Some (''[Errno 20] Not a directory: '' @ quoted ''in.txt/x'')"
    by simp
  have shown: "encode_fault (sample_env\<lparr>path_fault := (\<lambda>path. Some (''[Errno 20] Not a directory: '' @ quoted path))\<rparr>) (err_mark @ '' Error reading input file: '' @
      (''[Errno 20] Not a directory: '' @ quoted ''in.txt/x'')) = None"
    by (simp add: sample_env_def)
  have "text_to_speech (sample_env\<lparr>path_fault := (\<lambda>path. Some (''[Errno 20] Not a directory: '' @ quoted path))\<rparr>) ''in.txt/x'' ''out.mp3'' ''en-US-Wavenet-D'' ''en-US'' sample_world =
      (SysExit 1, emit (err_mark @ '' Error reading input file: '' @
          (''[Errno 20] Not a directory: '' @ quoted ''in.txt/x''))
        (perform (OpenRead ''in.txt/x'') sample_world))"
    unfolding tts_refused [OF absent refused] fail_with_accepted [OF shown] by (rule refl)
  then have run: "text_to_speech (sample_env\<lparr>path_fault := (\<lambda>path. Some (''[Errno 20] Not a directory: '' @ quoted path))\<rparr>) ''in.txt/x'' ''out.mp3'' ''en-US-Wavenet-D'' ''en-US''
      sample_world =
     (SysExit 1,
      sample_world\<lparr>stdout :=
          [err_mark @ '' Error reading input file: [Errno 20] Not a directory: '' @
             quoted ''in.txt/x''],
        effects := [OpenRead ''in.txt/x'']\<rparr>)"
    by (simp add: emit_def perform_def sample_blank)
  have differ: "err_mark @ '' Error reading input file: [Errno 20] Not a directory: '' @
        quoted ''in.txt/x''
       \<noteq> err_mark @ '' Error: Input file '' @ quoted ''in.txt/x'' @ '' not found.''"
    by simp
  from absent run differ show ?thesis
    by (intro conjI)
qed

subsection \<open>The report of the listing flow\<close>

text \<open>
  Claim C5, amended. For every language code, when the client is created, the query
  is answered, the gender value of every voice returned is a member of the gender
  enumeration and the console accepts every line of the report, \<open>list_voices\<close>
  prints the banner that names the language code and then, for each voice in order, its
  name, its language codes joined by commas, the label of its gender, its sample rate
  in Hertz and the divider line. The divider line stands exactly once for each voice,
  and a gender label is the name of a member of the enumeration: it has no digit and is
  not the decimal form of the value.
\<close>

theorem listing_report:
  assumes "client_fault env = None"
    and "remote_list_voices env language_code = Inr voices"
    and "\<forall>v\<in>set voices. SsmlVoiceGender_of (v_ssml_gender v) \<noteq> None"
    and "\<forall>s\<in>set (banner_lines language_code @ concat (map voice_record voices)).
           encode_fault env s = None"
  shows "list_voices env language_code w =
           (Return (),
            w\<lparr>stdout := stdout w @ banner_lines language_code @ concat (map voice_record voices),
              effects := effects w @ [CreateClient, ListVoicesCall language_code]\<rparr>)
         \<and> count_list (banner_lines language_code @ concat (map voice_record voices)) divider
             = length voices
         \<and> (\<forall>v\<in>set voices.
               gender_label (v_ssml_gender v) \<noteq> str_int (v_ssml_gender v) \<and>
               set (gender_label (v_ssml_gender v)) \<inter> set ''0123456789'' = {})"
proof -
  from assms(4) have banner: "\<forall>s\<in>set (banner_lines language_code). encode_fault env s = None"
    and records: "\<forall>s\<in>set (concat (map voice_record voices)). encode_fault env s = None"
    by simp_all
  have run: "list_voices env language_code w =
           (Return (),
            w\<lparr>stdout := stdout w @ banner_lines language_code @ concat (map voice_record voices),
              effects := effects w @ [CreateClient, ListVoicesCall language_code]\<rparr>)"
    by (simp add: list_voices_answered [OF assms(1,2)] print_banner_accepted [OF banner]
        print_voices_valid [OF assms(3) records] perform_def)
  have dividers:
    "count_list (banner_lines language_code @ concat (map voice_record voices)) divider
       = length voices"
    by (simp add: count_list_append count_divider_banner count_divider_records)
  have labels: "\<forall>v\<in>set voices.
               gender_label (v_ssml_gender v) \<noteq> str_int (v_ssml_gender v) \<and>
               set (gender_label (v_ssml_gender v)) \<inter> set ''0123456789'' = {}"
  proof
    fix v assume "v \<in> set voices"
    with assms(3) obtain g where g: "SsmlVoiceGender_of (v_ssml_gender v) = Some g"
      by auto
    show "gender_label (v_ssml_gender v) \<noteq> str_int (v_ssml_gender v) \<and>
          set (gender_label (v_ssml_gender v)) \<inter> set ''0123456789'' = {}"
      using gender_label_not_code [OF g] gender_name_no_digit [of g]
      by (simp add: gender_label_def g)
  qed
  from run dividers labels show ?thesis
    by (intro conjI)
qed

text \<open>
  The report for the one voice of the sample service.
\<close>

theorem listing_report_witness:
  "list_voices sample_env ''en-US'' sample_world =
     (Return (),
      sample_world\<lparr>stdout :=
          [CHR 0x0A # replicate 60 CHR ''='',
           ''Available voices for language: en-US'',
           replicate 60 CHR ''='' @ [CHR 0x0A],
           ''Name: en-US-Wavenet-D'',
           ''Languages: en-US'',
           ''Gender: MALE'',
           ''Natural Sample Rate: 24000 Hz'',
           replicate 60 CHR ''-''],
        effects := [CreateClient, ListVoicesCall ''en-US'']\<rparr>)"
proof -
  have a: "client_fault sample_env = None"
    by (simp add: sample_env_def)
  have b: "remote_list_voices sample_env ''en-US'' = Inr [sample_voice]"
    by (simp add: sample_env_def)
  have c: "\<forall>v\<in>set [sample_voice]. SsmlVoiceGender_of (v_ssml_gender v) \<noteq> None"
    by (simp add: sample_voice_def SsmlVoiceGender_of_def)
  have d: "\<forall>s\<in>set (banner_lines ''en-US'' @ concat (map voice_record [sample_voice])).
      encode_fault sample_env s = None"
    by (simp add: sample_console)
  have r: "str_int 24000 = ''24000''"
    by (simp add: str_int_def str_nat.simps digit_def)
  from listing_report [OF a b c d, of sample_world] show ?thesis
    by (simp add: banner_lines_def voice_record_def sample_voice_def gender_label_def
        SsmlVoiceGender_of_def divider_def sample_world_def r)
qed

text \<open>
  The claim as first stated covers every voice the service returns. A voice whose
  gender value is outside the enumeration makes the conversion raise inside the loop:
  its name and languages are printed, then the error, and the run ends with status 1.
  No divider line is printed for the one voice returned.
\<close>

theorem listing_unknown_gender:
  "client_fault odd_env = None \<and>
   remote_list_voices odd_env ''en-US'' = Inr [odd_voice] \<and>
   fst (list_voices odd_env ''en-US'' sample_world) = SysExit 1 \<and>
   stdout (snd (list_voices odd_env ''en-US'' sample_world)) =
     [CHR 0x0A # replicate 60 CHR ''='',
      ''Available voices for language: en-US'',
      replicate 60 CHR ''='' @ [CHR 0x0A],
      ''Name: en-US-Future-X'',
      ''Languages: en-US'',
      ''Error listing voices: 7 is not a valid SsmlVoiceGender''] \<and>
   count_list (stdout (snd (list_voices odd_env ''en-US'' sample_world))) divider = 0"
proof -
  have a: "client_fault odd_env = None"
    by (simp add: odd_env_def sample_env_def)
  have b: "remote_list_voices odd_env ''en-US'' = Inr [odd_voice]"
    by (simp add: odd_env_def)
  have c: "encode_fault odd_env s = None" for s
    by (simp add: odd_env_def sample_env_def)
  have m: "invalid_gender_message 7 = ''7 is not a valid SsmlVoiceGender''"
    by (simp add: invalid_gender_message_def str_int_def str_nat.simps digit_def)
  have run: "list_voices odd_env ''en-US'' sample_world =
     (SysExit 1,
      sample_world\<lparr>stdout :=
        [CHR 0x0A # replicate 60 CHR ''='',
         ''Available voices for language: en-US'',
         replicate 60 CHR ''='' @ [CHR 0x0A],
         ''Name: en-US-Future-X'',
         ''Languages: en-US'',
         ''Error listing voices: 7 is not a valid SsmlVoiceGender''],
        effects := [CreateClient, ListVoicesCall ''en-US'']\<rparr>)"
    by (simp add: list_voices_answered [OF a b] odd_voice_def SsmlVoiceGender_of_def m c
        print_banner_def print_def to_gender_def fail_with_def emit_def perform_def
        sample_world_def)
  show ?thesis
    by (simp add: a b run divider_not_labelled rule_not_divider)
qed

subsection \<open>The defaults of the voice and the language\<close>

text \<open>
  Claim C6, amended. Without \<^verbatim>\<open>--voice\<close> the voice is
  \<^verbatim>\<open>en-US-Wavenet-D\<close>, and without \<^verbatim>\<open>--language\<close> the language code is
  \<^verbatim>\<open>en-US\<close>; these are the values that every request and every catalog query of
  the run carries to the remote service.
\<close>

theorem defaults_reach_service:
  assumes "parse_args cl = Some args"
  shows "(cl_voice cl = None \<longrightarrow> arg_voice args = ''en-US-Wavenet-D'')
       \<and> (cl_language cl = None \<longrightarrow> arg_language args = ''en-US'')
       \<and> (\<forall>request. SynthesizeCall request \<in> set (new_effects w (snd (main env cl w))) \<longrightarrow>
             (cl_voice cl = None \<longrightarrow> sel_name (fst (snd request)) = ''en-US-Wavenet-D'') \<and>
             (cl_language cl = None \<longrightarrow> sel_language_code (fst (snd request)) = ''en-US''))
       \<and> (\<forall>l. ListVoicesCall l \<in> set (new_effects w (snd (main env cl w))) \<longrightarrow>
             cl_language cl = None \<longrightarrow> l = ''en-US'')"
proof -
  have voice: "cl_voice cl = None \<longrightarrow> arg_voice args = ''en-US-Wavenet-D''"
    and language: "cl_language cl = None \<longrightarrow> arg_language args = ''en-US''"
    using assms by (simp_all add: parse_args_voice parse_args_language)
  have calls: "(\<forall>request. SynthesizeCall request \<in> set (new_effects w (snd (main env cl w))) \<longrightarrow>
             (\<exists>tx. request = request_of tx (arg_voice args) (arg_language args)))
       \<and> (\<forall>l. ListVoicesCall l \<in> set (new_effects w (snd (main env cl w))) \<longrightarrow>
             l = arg_language args)"
  proof (cases "arg_list_voices args")
    case True
    from list_voices_effects [of env "arg_language args" w] obtain es where
      "effects (snd (list_voices env (arg_language args) w)) = effects w @ es"
      "set es \<subseteq> {CreateClient, ListVoicesCall (arg_language args)}"
      by blast
    with assms True show ?thesis
      by (auto simp add: main_lists)
  next
    case False
    note synth = this
    show ?thesis
    proof (cases "py_not (arg_input_file args) \<or> py_not (arg_output_file args)")
      case True
      from main_help [OF assms synth True] show ?thesis
        by (simp add: print_help_def)
    next
      case False
      then obtain inp out where io: "arg_input_file args = Some inp" "inp \<noteq> []"
        "arg_output_file args = Some out" "out \<noteq> []"
        by (auto simp add: py_not_def split: option.splits)
      from tts_effects [of env inp out "arg_voice args" "arg_language args" w] obtain es where
        "effects (snd (text_to_speech env inp out (arg_voice args) (arg_language args) w))
           = effects w @ es"
        "\<forall>request. SynthesizeCall request \<in> set es \<longrightarrow>
           (\<exists>tx. request = request_of tx (arg_voice args) (arg_language args))"
        "\<forall>l. ListVoicesCall l \<notin> set es"
        by blast
      then show ?thesis
        by (simp add: main_synthesizes [OF assms synth io(1,3,2,4)])
    qed
  qed
  have selected: "sel_name (fst (snd request)) = arg_voice args \<and>
      sel_language_code (fst (snd request)) = arg_language args"
    if "SynthesizeCall request \<in> set (new_effects w (snd (main env cl w)))" for request
  proof -
    from calls that obtain tx where
      "request = request_of tx (arg_voice args) (arg_language args)"
      by blast
    then show ?thesis
      by (simp add: request_of_def)
  qed
  from calls have listed: "l = arg_language args"
    if "ListVoicesCall l \<in> set (new_effects w (snd (main env cl w)))" for l
    using that by blast
  from voice language selected listed show ?thesis
    by (intro conjI allI impI) auto
qed

text \<open>
  The request of the sample run, made without either option.
\<close>

theorem defaults_reach_service_witness:
  "cl_voice synthesis_cl = None \<and> cl_language synthesis_cl = None
   \<and> SynthesizeCall (request_of [104, 105] ''en-US-Wavenet-D'' ''en-US'')
       \<in> set (new_effects sample_world (snd (main sample_env synthesis_cl sample_world)))
   \<and> sel_name (fst (snd (request_of [104, 105] ''en-US-Wavenet-D'' ''en-US'')))
       = ''en-US-Wavenet-D''
   \<and> sel_language_code (fst (snd (request_of [104, 105] ''en-US-Wavenet-D'' ''en-US'')))
       = ''en-US''"
proof -
  have unset: "cl_voice synthesis_cl = None" "cl_language synthesis_cl = None"
    by (simp_all add: synthesis_cl_def)
  have sent: "SynthesizeCall (request_of [104, 105] ''en-US-Wavenet-D'' ''en-US'')
       \<in> set (new_effects sample_world (snd (main sample_env synthesis_cl sample_world)))"
    by (simp add: sample_main_effects)
  from defaults_reach_service [OF parse_synthesis_cl, of sample_world sample_env] unset sent
  have "sel_name (fst (snd (request_of [104, 105] ''en-US-Wavenet-D'' ''en-US'')))
       = ''en-US-Wavenet-D''
   \<and> sel_language_code (fst (snd (request_of [104, 105] ''en-US-Wavenet-D'' ''en-US'')))
       = ''en-US''"
    by blast
  with unset sent show ?thesis
    by simp
qed

text \<open>
  The claim as first stated names \<^verbatim>\<open>standard-en-US-D-equivalent\<close> as the default
  voice. The sample run, made without \<^verbatim>\<open>--voice\<close>, sends one request, and the
  voice it names is \<^verbatim>\<open>en-US-Wavenet-D\<close>.
\<close>

theorem default_voice_is_wavenet:
  "cl_voice synthesis_cl = None
   \<and> new_effects sample_world (snd (main sample_env synthesis_cl sample_world)) =
       [OpenRead ''in.txt'', CreateClient,
        SynthesizeCall (\<lparr>si_text = [104, 105]\<rparr>,
          \<lparr>sel_language_code = ''en-US'', sel_name = ''en-US-Wavenet-D''\<rparr>,
          \<lparr>audio_encoding = MP3\<rparr>),
        OpenWrite ''out.mp3'', WriteBytes ''out.mp3'' [0x49, 0x44, 0x33]]
   \<and> ''en-US-Wavenet-D'' \<noteq> ''standard-en-US-D-equivalent''"
  by (simp add: sample_main_effects request_of_def) (simp add: synthesis_cl_def)

subsection \<open>No arguments at all\<close>

text \<open>
  Claim C7. Without positional arguments and without the list-voices flag, whatever
  the voice and language options are, \<open>main\<close> prints the usage text and leaves with
  a status that is not zero; the files are as before and no call has been made: no
  file was opened and the remote service was not contacted.
\<close>

theorem no_arguments_prints_usage:
  "main env \<lparr>cl_positionals = [], cl_list_voices = False, cl_voice = v, cl_language = l\<rparr> w
     = (SysExit 1, w\<lparr>stdout := stdout w @ [format_help env]\<rparr>)
   \<and> exit_status (fst (main env \<lparr>cl_positionals = [], cl_list_voices = False, cl_voice = v,
         cl_language = l\<rparr> w)) \<noteq> 0
   \<and> files (snd (main env \<lparr>cl_positionals = [], cl_list_voices = False, cl_voice = v,
         cl_language = l\<rparr> w)) = files w
   \<and> effects (snd (main env \<lparr>cl_positionals = [], cl_list_voices = False, cl_voice = v,
         cl_language = l\<rparr> w)) = effects w"
  by (simp add: main_def parse_args_def py_not_def print_help_def exit_status_def)

text \<open>
  The same on the sample disk, with a voice option given.
\<close>

theorem no_arguments_prints_usage_witness:
  "main sample_env \<lparr>cl_positionals = [], cl_list_voices = False,
       cl_voice = Some ''en-GB-Standard-A'', cl_language = None\<rparr> sample_world
     = (SysExit 1, sample_world\<lparr>stdout := [format_help sample_env]\<rparr>)"
proof -
  have none: "stdout sample_world = []"
    by (simp add: sample_world_def)
  from no_arguments_prints_usage [of sample_env "Some ''en-GB-Standard-A''" None sample_world] show ?thesis
    by (simp add: none)
qed

subsection \<open>The voice option does not matter when listing\<close>

text \<open>
  Claim C8. With the list-voices flag set, two command lines that differ only in
  the voice option give the same result and the same world; when the command line
  parses, that run is the listing flow for the language, which does not take the
  voice.
\<close>

theorem voice_ignored_when_listing:
  assumes "cl_list_voices cl"
  shows "main env (cl\<lparr>cl_voice := v1\<rparr>) w = main env (cl\<lparr>cl_voice := v2\<rparr>) w
       \<and> (\<forall>args. parse_args cl = Some args \<longrightarrow>
             main env (cl\<lparr>cl_voice := v1\<rparr>) w = list_voices env (arg_language args) w)"
proof (cases "parse_args cl")
  case None
  then show ?thesis
    by (simp add: main_def parse_args_voice_update)
next
  case (Some args)
  with assms have "arg_list_voices args"
    by (simp add: parse_args_flag)
  with Some show ?thesis
    by (simp add: main_def parse_args_voice_update)
qed

text \<open>
  Listing with a voice option and without one.
\<close>

theorem voice_ignored_when_listing_witness:
  "cl_list_voices listing_cl
   \<and> main sample_env (listing_cl\<lparr>cl_voice := Some ''en-GB-Standard-A''\<rparr>) sample_world
       = main sample_env (listing_cl\<lparr>cl_voice := None\<rparr>) sample_world
   \<and> main sample_env (listing_cl\<lparr>cl_voice := Some ''en-GB-Standard-A''\<rparr>) sample_world
       = list_voices sample_env ''en-US'' sample_world"
proof -
  have flag: "cl_list_voices listing_cl"
    by (simp add: listing_cl_def)
  note run = voice_ignored_when_listing [OF flag, of sample_env "Some ''en-GB-Standard-A''" sample_world None]
  from run have same:
    "main sample_env (listing_cl\<lparr>cl_voice := Some ''en-GB-Standard-A''\<rparr>) sample_world
       = main sample_env (listing_cl\<lparr>cl_voice := None\<rparr>) sample_world"
    by (rule conjunct1)
  from run have "\<forall>args. parse_args listing_cl = Some args \<longrightarrow>
      main sample_env (listing_cl\<lparr>cl_voice := Some ''en-GB-Standard-A''\<rparr>) sample_world
        = list_voices sample_env (arg_language args) sample_world"
    by (rule conjunct2)
  with parse_listing_cl
  have "main sample_env (listing_cl\<lparr>cl_voice := Some ''en-GB-Standard-A''\<rparr>) sample_world
        = list_voices sample_env ''en-US'' sample_world"
    by simp
  with flag same show ?thesis
    by (intro conjI)
qed

subsection \<open>An empty positional argument\<close>

text \<open>
  Claim C9. Without the list-voices flag, when the input path or the output path is
  the empty string, \<open>main\<close> prints the usage text and leaves with status 1, as it
  does for a missing argument; the synthesis flow is not entered, so no call is made.
\<close>

theorem empty_positional_prints_usage:
  assumes "parse_args cl = Some args" and "\<not> arg_list_voices args"
    and "arg_input_file args = Some [] \<or> arg_output_file args = Some []"
  shows "main env cl w = (SysExit 1, w\<lparr>stdout := stdout w @ [format_help env]\<rparr>)"
proof -
  from assms(3) have "py_not (arg_input_file args) \<or> py_not (arg_output_file args)"
    by (auto simp add: py_not_def)
  from main_help [OF assms(1,2) this] show ?thesis
    by (simp add: print_help_def)
qed

text \<open>
  The command line with an empty input path.
\<close>

theorem empty_positional_prints_usage_witness:
  "parse_args empty_input_cl =
     Some \<lparr>arg_input_file = Some [], arg_output_file = Some ''out.mp3'',
       arg_list_voices = False, arg_voice = ''en-US-Wavenet-D'', arg_language = ''en-US''\<rparr>
   \<and> main sample_env empty_input_cl sample_world
       = (SysExit 1, sample_world\<lparr>stdout := [format_help sample_env]\<rparr>)"
proof -
  have none: "stdout sample_world = []"
    by (simp add: sample_world_def)
  from empty_positional_prints_usage [OF parse_empty_input_cl, of sample_env sample_world] parse_empty_input_cl
  show ?thesis
    by (simp add: none)
qed

subsection \<open>An existing output file is replaced\<close>

text \<open>
  Claim C10. When \<open>text_to_speech\<close> returns normally and the output path named a
  file before the run, that file afterwards holds the payload the service returned for
  the request and nothing of its former contents; every other file is as it was.
\<close>

theorem output_file_replaced:
  assumes "text_to_speech env input_file output_file voice_name language_code w = (Return (), w')"
    and "files w output_file = Some old"
  shows "\<exists>content txt audio.
           files w input_file = Some content \<and> read_text env input_file content = Inr txt \<and>
           remote_synthesize env (request_of txt voice_name language_code) = Inr audio \<and>
           files w' output_file = Some audio \<and>
           (\<forall>path. path \<noteq> output_file \<longrightarrow> files w' path = files w path)"
proof -
  from tts_returns [OF assms(1)] obtain content tx audio where
    "files w input_file = Some content" "read_text env input_file content = Inr tx"
    "remote_synthesize env (request_of tx voice_name language_code) = Inr audio"
    "files w' = (files w)(output_file \<mapsto> audio)"
    by blast
  then show ?thesis
    by auto
qed

text \<open>
  The sample disk has an output file of two bytes; after the run it holds the three
  bytes of the payload.
\<close>

theorem output_file_replaced_witness:
  "files sample_world ''out.mp3'' = Some [0x01, 0x02]
   \<and> fst (text_to_speech sample_env ''in.txt'' ''out.mp3'' ''en-US-Wavenet-D'' ''en-US''
        sample_world) = Return ()
   \<and> files (snd (text_to_speech sample_env ''in.txt'' ''out.mp3'' ''en-US-Wavenet-D'' ''en-US''
        sample_world)) ''out.mp3'' = Some [0x49, 0x44, 0x33]"
proof -
  have old: "files sample_world ''out.mp3'' = Some [0x01, 0x02]"
    by (simp add: sample_world_def)
  have returns: "fst (text_to_speech sample_env ''in.txt'' ''out.mp3'' ''en-US-Wavenet-D''
      ''en-US'' sample_world) = Return ()"
    by (simp add: sample_run)
  then have run: "text_to_speech sample_env ''in.txt'' ''out.mp3'' ''en-US-Wavenet-D'' ''en-US''
      sample_world =
        (Return (), snd (text_to_speech sample_env ''in.txt'' ''out.mp3'' ''en-US-Wavenet-D''
          ''en-US'' sample_world))"
    by (simp add: prod_eq_iff)
  from output_file_replaced [OF run old] obtain audio tx where
    "remote_synthesize sample_env (request_of tx ''en-US-Wavenet-D'' ''en-US'') = Inr audio"
    "files (snd (text_to_speech sample_env ''in.txt'' ''out.mp3'' ''en-US-Wavenet-D'' ''en-US''
        sample_world)) ''out.mp3'' = Some audio"
    by blast
  then have "files (snd (text_to_speech sample_env ''in.txt'' ''out.mp3'' ''en-US-Wavenet-D''
      ''en-US'' sample_world)) ''out.mp3'' = Some [0x49, 0x44, 0x33]"
    by (simp add: sample_env_def)
  with old returns show ?thesis
    by simp
qed

end
